theory Spec2Isabelle
  imports Main "HOL-Library.Multiset"
begin

section \<open>Lazy sortable table model\<close>

text \<open>
  The table model (\<^verbatim>\<open>CollectionsModel\<close>, \<^verbatim>\<open>natsort\<close>, \<^verbatim>\<open>ROWS_TO_LOAD\<close>) lives in
  \<^verbatim>\<open>spyder/widgets/collectionseditor.py\<close>, which is not among the source files; only its
  tests (\<^verbatim>\<open>spyder/widgets/tests/test_collectioneditor.py\<close>) are. The definitions of this
  section are therefore modelled from the specification (sections 3 and 4.3).
\<close>

subsection \<open>Natural sort of keys\<close>

text \<open>Decimal digits, their values, and \<^verbatim>\<open>str.lower\<close> on the letters A to Z.\<close>

definition is_digit :: "char \<Rightarrow> bool" where
  "is_digit c = (48 \<le> (of_char c :: nat) \<and> (of_char c :: nat) \<le> 57)"

definition digit_value :: "char \<Rightarrow> nat" where
  "digit_value c = (of_char c :: nat) - 48"

text \<open>The number a run of digits denotes, most significant digit first.\<close>

definition nat_of_digits :: "string \<Rightarrow> nat" where
  "nat_of_digits ds = foldl (\<lambda>acc c. 10 * acc + digit_value c) 0 ds"

definition lower_char :: "char \<Rightarrow> char" where
  "lower_char c =
     (case map_of (zip ''ABCDEFGHIJKLMNOPQRSTUVWXYZ'' ''abcdefghijklmnopqrstuvwxyz'') c of
        Some l \<Rightarrow> l
      | None \<Rightarrow> c)"

datatype run = Digits string | Text string

text \<open>
  Modelled from the spec: \<^verbatim>\<open>natsort\<close> is missing from the sources. ``Split each key into
  alternating runs of digits and non-digits'': a character joins the run to its right when
  both are digits or both are not, and starts a new run otherwise.
\<close>

fun add_char :: "char \<Rightarrow> run list \<Rightarrow> run list" where
  "add_char c [] = (if is_digit c then [Digits [c]] else [Text [c]])"
| "add_char c (Digits ds # rs) =
     (if is_digit c then Digits (c # ds) # rs else Text [c] # Digits ds # rs)"
| "add_char c (Text ts # rs) =
     (if is_digit c then Digits [c] # Text ts # rs else Text (c # ts) # rs)"

definition runs :: "string \<Rightarrow> run list" where
  "runs s = foldr add_char s []"

datatype chunk = Num nat | Txt string

fun chunk_of_run :: "run \<Rightarrow> chunk" where
  "chunk_of_run (Digits ds) = Num (nat_of_digits ds)"
| "chunk_of_run (Text ts) = Txt (map lower_char ts)"

text \<open>
  Modelled from the spec: the sort key of \<^verbatim>\<open>natsort\<close>. A run of digits counts by its
  numeric value. The test \<^verbatim>\<open>test_dicts_natural_sorting_mixed_types\<close> expects
  \<^verbatim>\<open>aStr\<close> before \<^verbatim>\<open>DSeries\<close>, so the non-digit runs are compared without regard to
  case.
\<close>

definition natsort :: "string \<Rightarrow> chunk list" where
  "natsort s = map chunk_of_run (runs s)"

text \<open>Lexicographic order of strings by character code.\<close>

fun string_less :: "string \<Rightarrow> string \<Rightarrow> bool" where
  "string_less [] [] = False"
| "string_less [] (y # ys) = True"
| "string_less (x # xs) [] = False"
| "string_less (x # xs) (y # ys) =
     ((of_char x :: nat) < of_char y \<or> (x = y \<and> string_less xs ys))"

text \<open>
  Modelled from the spec: ``numeric runs by numeric value, non-numeric runs
  lexicographically''. The spec does not say
  how a numeric run compares with a non-numeric one; here the numeric run comes first, as
  digits do in the character order.
\<close>

fun chunk_less :: "chunk \<Rightarrow> chunk \<Rightarrow> bool" where
  "chunk_less (Num a) (Num b) = (a < b)"
| "chunk_less (Txt s) (Txt t) = string_less s t"
| "chunk_less (Num a) (Txt t) = True"
| "chunk_less (Txt s) (Num b) = False"

text \<open>
  Modelled from the spec: ``compare run-by-run''. The first differing run decides, and a key
  that is a prefix of another comes first.
\<close>

fun chunks_le :: "chunk list \<Rightarrow> chunk list \<Rightarrow> bool" where
  "chunks_le [] ys = True"
| "chunks_le (x # xs) [] = False"
| "chunks_le (x # xs) (y # ys) =
     (chunk_less x y \<or> (\<not> chunk_less y x \<and> chunks_le xs ys))"

definition natural_le :: "string \<Rightarrow> string \<Rightarrow> bool" where
  "natural_le a b = chunks_le (natsort a) (natsort b)"

text \<open>
  Modelled from the spec: sorting is stable. An element is inserted in front of the first element it
  is less than or equal to, and the elements are inserted from the last to the first, so
  equal elements keep their order.
\<close>

fun insort_by :: "('a \<Rightarrow> 'a \<Rightarrow> bool) \<Rightarrow> 'a \<Rightarrow> 'a list \<Rightarrow> 'a list" where
  "insort_by le x [] = [x]"
| "insort_by le x (y # ys) = (if le x y then x # y # ys else y # insort_by le x ys)"

definition sort_by :: "('a \<Rightarrow> 'a \<Rightarrow> bool) \<Rightarrow> 'a list \<Rightarrow> 'a list" where
  "sort_by le xs = foldr (insort_by le) xs []"

text \<open>\<^verbatim>\<open>sorted(keys, key=natsort)\<close>, as the test \<^verbatim>\<open>test_dicts_natural_sorting\<close> calls it.\<close>

definition natural_sort :: "string list \<Rightarrow> string list" where
  "natural_sort ks = sort_by natural_le ks"




subsection \<open>Entries, columns and the sort state\<close>

text \<open>
  Modelled from the spec (section 3): a size descriptor is an integer count or a tuple of
  dimensions; an entry has a key, a type tag, a size, a display string and, when the value
  is numeric, its number.
\<close>

datatype size_descriptor = Count int | Dims "int list"

record entry =
  entry_key :: string
  type_tag :: string
  entry_size :: size_descriptor
  display :: string
  number :: "int option"

datatype column = Key | Type | Size | Value

datatype direction = Ascending | Descending | InsertionOrder

record sort_state =
  column :: column
  direction :: direction

text \<open>Modelled from the spec: the cycle of the directions.\<close>

fun next_direction :: "direction \<Rightarrow> direction" where
  "next_direction Ascending = Descending"
| "next_direction Descending = InsertionOrder"
| "next_direction InsertionOrder = Ascending"

text \<open>
  Modelled from the spec: ``Cycles Ascending, Descending, InsertionOrder, Ascending on
  repeated activation of the same column; selecting a different column resets to
  Ascending.''
\<close>

definition activate :: "column \<Rightarrow> sort_state \<Rightarrow> sort_state" where
  "activate c st =
     (if column st = c then st\<lparr>direction := next_direction (direction st)\<rparr>
      else \<lparr>column = c, direction = Ascending\<rparr>)"

text \<open>
  Modelled from the spec: insertion order is ``the default (un-sorted) order'', and the
  test \<^verbatim>\<open>test_dict_in_tableview_sorting\<close> finds a new table in it.
\<close>

definition initial_sort_state :: sort_state where
  "initial_sort_state = \<lparr>column = Key, direction = InsertionOrder\<rparr>"

text \<open>Modelled from the spec: ``tuple sizes compare lexicographically by dimension''.\<close>

fun int_list_less :: "int list \<Rightarrow> int list \<Rightarrow> bool" where
  "int_list_less [] [] = False"
| "int_list_less [] (y # ys) = True"
| "int_list_less (x # xs) [] = False"
| "int_list_less (x # xs) (y # ys) = (x < y \<or> (x = y \<and> int_list_less xs ys))"

text \<open>
  Modelled from the spec: scalar counts compare numerically, tuples lexicographically by
  dimension, and a scalar comes before a tuple.
\<close>

fun size_less :: "size_descriptor \<Rightarrow> size_descriptor \<Rightarrow> bool" where
  "size_less (Count a) (Count b) = (a < b)"
| "size_less (Dims a) (Dims b) = int_list_less a b"
| "size_less (Count a) (Dims b) = True"
| "size_less (Dims a) (Count b) = False"

text \<open>
  Modelled from the spec: ``numeric compare when both values are numeric; otherwise falls
  back to string compare of the display text''.
\<close>

definition value_less :: "entry \<Rightarrow> entry \<Rightarrow> bool" where
  "value_less a b =
     (case (number a, number b) of
        (Some x, Some y) \<Rightarrow> x < y
      | _ \<Rightarrow> string_less (display a) (display b))"

text \<open>
  Modelled from the spec (section 4.3): the comparator of each column. Type: by type tag,
  ties broken by size, then by natural-sorted key. Size: by size, ties broken by key.
  Value: numerically when both values are numeric, else by the display text. (The test
  \<^verbatim>\<open>test_sort_collectionsmodel\<close>, for its part, leaves two data frames of different
  sizes in their insertion order when it sorts by type.)
\<close>

fun column_le :: "column \<Rightarrow> entry \<Rightarrow> entry \<Rightarrow> bool" where
  "column_le Key a b = natural_le (entry_key a) (entry_key b)"
| "column_le Type a b =
     (string_less (type_tag a) (type_tag b) \<or>
      (\<not> string_less (type_tag b) (type_tag a) \<and>
       (size_less (entry_size a) (entry_size b) \<or>
        (\<not> size_less (entry_size b) (entry_size a) \<and> natural_le (entry_key a) (entry_key b)))))"
| "column_le Size a b =
     (size_less (entry_size a) (entry_size b) \<or>
      (\<not> size_less (entry_size b) (entry_size a) \<and> natural_le (entry_key a) (entry_key b)))"
| "column_le Value a b = (\<not> value_less b a)"

text \<open>
  Modelled from the spec: the row order of a sort state over the entries in insertion
  order. Descending is ``the exact reverse of Ascending, not a separately-computed
  order''; InsertionOrder ``ignores the comparator and restores the original insertion
  sequence''.
\<close>

definition sorted_rows :: "sort_state \<Rightarrow> entry list \<Rightarrow> entry list" where
  "sorted_rows st es =
     (case direction st of
        Ascending \<Rightarrow> sort_by (column_le (column st)) es
      | Descending \<Rightarrow> rev (sort_by (column_le (column st)) es)
      | InsertionOrder \<Rightarrow> es)"

subsection \<open>Paging\<close>

text \<open>
  Modelled from the spec (sections 3 and 4.3): the page window of a model over
  \<open>n\<close> entries. \<^verbatim>\<open>fetch_more\<close> ``is a no-op once FullyLoaded; otherwise it grows
  loaded_count by page_size, clamped to total entries''.
\<close>

record page_window =
  loaded_count :: nat
  page_size :: nat

definition fully_loaded :: "nat \<Rightarrow> page_window \<Rightarrow> bool" where
  "fully_loaded n w = (loaded_count w = n)"

definition fetch_more :: "nat \<Rightarrow> page_window \<Rightarrow> page_window" where
  "fetch_more n w =
     (if fully_loaded n w then w
      else w\<lparr>loaded_count := min (loaded_count w + page_size w) n\<rparr>)"

text \<open>
  Modelled from the tests \<^verbatim>\<open>test_sort_and_fetch_collectionsmodel_with_many_rows\<close> and
  \<^verbatim>\<open>test_notimplementederror_multiindex\<close>: a model over more rows than a page opens
  with one page loaded.
\<close>

definition initial_window :: "nat \<Rightarrow> nat \<Rightarrow> page_window" where
  "initial_window n page = \<lparr>loaded_count = min page n, page_size = page\<rparr>"

text \<open>
  Modelled from the spec: the table shows the loaded rows of the sorted projection of the
  entries.
\<close>

definition row_count :: "page_window \<Rightarrow> nat" where
  "row_count w = loaded_count w"

definition visible_rows :: "sort_state \<Rightarrow> page_window \<Rightarrow> entry list \<Rightarrow> entry list" where
  "visible_rows st w es = take (loaded_count w) (sorted_rows st es)"

text \<open>
  The dictionary \<^verbatim>\<open>{2: 3, 3: 1, 1: 2}\<close> of the test \<^verbatim>\<open>test_dict_in_tableview_sorting\<close>,
  in insertion order.
\<close>

definition test_dict :: "entry list" where
  "test_dict =
     [\<lparr>entry_key = ''2'', type_tag = ''int'', entry_size = Count 1, display = ''3'', number = Some 3\<rparr>,
      \<lparr>entry_key = ''3'', type_tag = ''int'', entry_size = Count 1, display = ''1'', number = Some 1\<rparr>,
      \<lparr>entry_key = ''1'', type_tag = ''int'', entry_size = Count 1, display = ''2'', number = Some 2\<rparr>]"

section \<open>Remote value channel\<close>

text \<open>
  \<^verbatim>\<open>NamepaceBrowserWidget.get_value\<close> and \<^verbatim>\<open>set_value\<close> of
  \<^verbatim>\<open>spyder/plugins/ipythonconsole/widgets/namespacebrowser.py\<close>.
\<close>

subsection \<open>Python exceptions\<close>

datatype exc_class =
    BaseException | Exception | TimeoutError | OSError | PicklingError | UnpicklingError
  | TypeError | RuntimeError | NotImplementedError | LookupError | KeyError | IndexError
  | CommError | ImportError | ModuleNotFoundError | ValueError | AttributeError
  | OtherClass string

text \<open>What looking up a chain of attributes gives: a value, or the exception it raises.\<close>

datatype 'a lookup = Found 'a | Fails exc_class

text \<open>
  An exception object, as far as the handlers look at it: the classes it is an instance of
  (its class and all the bases of that class, on which the \<^verbatim>\<open>except\<close> clauses match),
  \<^verbatim>\<open>str(err)\<close>, \<^verbatim>\<open>err.name\<close> (\<open>None\<close> is Python's \<^verbatim>\<open>None\<close>) and
  \<^verbatim>\<open>err.args[0].error.name\<close>, the module name of an import error that was raised in the
  kernel and wrapped for the trip.
\<close>

record py_exception =
  exc_classes :: "exc_class list"
  exc_str :: string
  exc_name :: "string option"
  exc_wrapped_name :: "string option lookup"

definition isinstance :: "py_exception \<Rightarrow> exc_class list \<Rightarrow> bool" where
  "isinstance err cs = (\<exists>c \<in> set cs. c \<in> set (exc_classes err))"

definition startswith :: "string \<Rightarrow> string \<Rightarrow> bool" where
  "startswith s p = (take (length p) s = p)"

text \<open>What \<^verbatim>\<open>'{}'.format(x)\<close> prints for a string or \<^verbatim>\<open>None\<close>.\<close>

fun py_format :: "string option \<Rightarrow> string" where
  "py_format None = ''None''"
| "py_format (Some s) = s"

subsection \<open>The explanations shown to the user\<close>

text \<open>
  One constructor for each \<^verbatim>\<open>reason_...\<close> text of \<^verbatim>\<open>get_value\<close> and
  \<^verbatim>\<open>set_value\<close>, with the values formatted into it. The two methods have different texts
  for a Numpy mismatch.
\<close>

datatype explanation =
    Reason_big
  | Reason_not_picklable
  | Reason_dead
  | Reason_other
  | Reason_comm
  | Reason_missing_package_target string
  | Reason_missing_package_installer string
  | Reason_missing_package string
  | Reason_mismatched_numpy
  | Reason_mismatched_pandas
  | Reason_mismatched_python string string string string
  | Reason_mismatched_numpy_console

text \<open>
  How a call ends: it returns a value, raises \<^verbatim>\<open>ValueError(msg % reason)\<close>, lets an
  exception through unchanged (re-raised, or matched by no clause), or raises a new
  exception while it handles the first.
\<close>

datatype 'a outcome =
    Returned 'a
  | Raised_ValueError explanation
  | Propagated py_exception
  | Raised_in_handler exc_class

text \<open>
  What the methods read from the host: the Python version of Spyder
  (\<^verbatim>\<open>sys.version_info[:3]\<close> joined by dots), that of the kernel
  (\<^verbatim>\<open>self.get_pythonenv_info()["python_version"]\<close>), the order of
  \<^verbatim>\<open>packaging.version.parse\<close> on version strings, and \<^verbatim>\<open>is_conda_based_app()\<close>.
\<close>

record host =
  py_spyder_version :: string
  py_kernel_version :: "string lookup"
  parse_less :: "string \<Rightarrow> string \<Rightarrow> bool"
  is_conda_based_app :: bool

subsection \<open>get_value\<close>

text \<open>
  The \<^verbatim>\<open>except\<close> clauses of \<^verbatim>\<open>get_value\<close>, in their order: the first clause whose
  classes the exception is an instance of handles it.
\<close>

definition get_value_except :: "host \<Rightarrow> bool \<Rightarrow> py_exception \<Rightarrow> 'a outcome" where
  "get_value_except h kernel_call_success err =
     (if isinstance err [TimeoutError] then Raised_ValueError Reason_big
      else if isinstance err [PicklingError, UnpicklingError, TypeError] then
        (if startswith (exc_str err) ''code expected at most'' \<or>
            startswith (exc_str err) ''code() argument''
         then
           (case py_kernel_version h of
              Fails c \<Rightarrow> Raised_in_handler c
            | Found kernel_version \<Rightarrow>
                (if parse_less h (py_spyder_version h) kernel_version
                 then Raised_ValueError
                   (Reason_mismatched_python (py_spyder_version h) kernel_version
                      ''3.10'' ''lower'')
                 else Raised_ValueError
                   (Reason_mismatched_python (py_spyder_version h) kernel_version
                      ''3.11'' ''greater'')))
         else Raised_ValueError Reason_not_picklable)
      else if isinstance err [RuntimeError] then Raised_ValueError Reason_dead
      else if isinstance err [KeyError] then Propagated err
      else if isinstance err [CommError] then Raised_ValueError Reason_comm
      else if isinstance err [ModuleNotFoundError] then
        (if \<not> kernel_call_success then
           (case exc_wrapped_name err of
              Fails c \<Rightarrow> Raised_in_handler c
            | Found name \<Rightarrow> Raised_ValueError (Reason_missing_package_target (py_format name)))
         else if is_conda_based_app h then
           Raised_ValueError (Reason_missing_package_installer (py_format (exc_name err)))
         else
           (case exc_name err of
              None \<Rightarrow> Raised_in_handler AttributeError
            | Some name \<Rightarrow>
                (if startswith name ''numpy._core'' then Raised_ValueError Reason_mismatched_numpy
                 else if name = ''pandas.core.indexes.numeric''
                 then Raised_ValueError Reason_mismatched_pandas
                 else Raised_ValueError (Reason_missing_package name))))
      else if isinstance err [Exception] then Raised_ValueError Reason_other
      else Propagated err)"

text \<open>
  \<open>call_kernel name\<close> is the blocking call
  \<^verbatim>\<open>self.call_kernel(...).get_value(name, encoded=True)\<close>: the encoded value or the
  exception it raises. \<open>loads\<close> is \<^verbatim>\<open>cloudpickle.loads\<close>.
  \<^verbatim>\<open>kernel_call_success\<close> is set between the two.
\<close>

definition get_value ::
  "host \<Rightarrow> (string \<Rightarrow> py_exception + 'e) \<Rightarrow> ('e \<Rightarrow> py_exception + 'a) \<Rightarrow> string \<Rightarrow> 'a outcome"
where
  "get_value h call_kernel loads name =
     (case call_kernel name of
        Inl err \<Rightarrow> get_value_except h False err
      | Inr encoded \<Rightarrow>
          (case loads encoded of
             Inl err \<Rightarrow> get_value_except h True err
           | Inr v \<Rightarrow> Returned v))"


subsection \<open>set_value\<close>

text \<open>
  \<open>dumps\<close> is \<^verbatim>\<open>cloudpickle.dumps\<close>, called before the \<^verbatim>\<open>try\<close> block;
  \<open>call_kernel name encoded\<close> is the call
  \<^verbatim>\<open>self.call_kernel(...).set_value(name, encoded_value, encoded=True)\<close> inside it. The
  method returns \<^verbatim>\<open>None\<close>.
\<close>

definition set_value ::
  "('a \<Rightarrow> py_exception + 'e) \<Rightarrow> (string \<Rightarrow> 'e \<Rightarrow> py_exception + unit) \<Rightarrow> string \<Rightarrow> 'a
     \<Rightarrow> unit outcome"
where
  "set_value dumps call_kernel name v =
     (case dumps v of
        Inl err \<Rightarrow> Propagated err
      | Inr encoded_value \<Rightarrow>
          (case call_kernel name encoded_value of
             Inr u \<Rightarrow> Returned ()
           | Inl err \<Rightarrow>
               (if isinstance err [ModuleNotFoundError] then
                  (case exc_wrapped_name err of
                     Fails c \<Rightarrow> Raised_in_handler c
                   | Found None \<Rightarrow> Raised_in_handler AttributeError
                   | Found (Some module_name) \<Rightarrow>
                       (if startswith module_name ''numpy._core''
                        then Raised_ValueError Reason_mismatched_numpy_console
                        else Returned ()))
                else if isinstance err [Exception] then Returned ()
                else Propagated err)))"

text \<open>Exceptions of the standard classes, with their base classes.\<close>

definition new_exception :: "exc_class list \<Rightarrow> string \<Rightarrow> py_exception" where
  "new_exception cs msg =
     \<lparr>exc_classes = cs @ [Exception, BaseException], exc_str = msg, exc_name = None,
      exc_wrapped_name = Fails AttributeError\<rparr>"

definition timeout_error :: py_exception where
  "timeout_error = new_exception [TimeoutError, OSError] ''Timeout while waiting''"

definition kernel_dead_error :: py_exception where
  "kernel_dead_error = new_exception [RuntimeError] ''Kernel is dead''"

definition pickling_error :: py_exception where
  "pickling_error = new_exception [PicklingError] ''Cannot pickle object''"

definition key_error :: py_exception where
  "key_error = new_exception [KeyError, LookupError] ''missing key''"

definition index_error :: py_exception where
  "index_error = new_exception [IndexError, LookupError] ''index out of range''"

definition type_error :: py_exception where
  "type_error = new_exception [TypeError] ''unsupported operand''"

definition attribute_error :: py_exception where
  "attribute_error = new_exception [AttributeError] ''no such attribute''"

definition zero_division_error :: py_exception where
  "zero_division_error = new_exception [OtherClass ''ZeroDivisionError'', OtherClass ''ArithmeticError''] ''division by zero''"

text \<open>
  A \<^verbatim>\<open>ModuleNotFoundError\<close> raised in the kernel for the module \<open>m\<close> and re-raised on
  this side around its wrapper, and one raised on this side by \<^verbatim>\<open>cloudpickle.loads\<close>.
\<close>

definition remote_module_not_found :: "string \<Rightarrow> py_exception" where
  "remote_module_not_found m =
     \<lparr>exc_classes = [ModuleNotFoundError, ImportError, Exception, BaseException],
      exc_str = ''No module named '' @ m, exc_name = None, exc_wrapped_name = Found (Some m)\<rparr>"

definition local_module_not_found :: "string \<Rightarrow> py_exception" where
  "local_module_not_found m =
     \<lparr>exc_classes = [ModuleNotFoundError, ImportError, Exception, BaseException],
      exc_str = ''No module named '' @ m, exc_name = Some m,
      exc_wrapped_name = Fails AttributeError\<rparr>"

text \<open>
  \<^verbatim>\<open>CommError\<close> comes from \<^verbatim>\<open>spyder_kernels.comms.commbase\<close>, where it is declared as
  a subclass of \<^verbatim>\<open>RuntimeError\<close>.
\<close>

definition comm_error :: py_exception where
  "comm_error = new_exception [CommError, RuntimeError] ''The comm is not connected''"

definition test_host :: host where
  "test_host =
     \<lparr>py_spyder_version = ''3.11.9'', py_kernel_version = Found ''3.10.14'',
      parse_less = (\<lambda>a b. False), is_conda_based_app = False\<rparr>"

text \<open>
  Kernels and picklers for the examples: a kernel call that raises a given exception or
  returns the bytes of a pickle, and \<^verbatim>\<open>loads\<close> and \<^verbatim>\<open>dumps\<close> that raise or return.
\<close>

definition kernel_raising :: "py_exception \<Rightarrow> string \<Rightarrow> py_exception + string" where
  "kernel_raising err name = Inl err"

definition kernel_returning :: "string \<Rightarrow> py_exception + string" where
  "kernel_returning name = Inr ''pickle''"

definition loads_raising :: "py_exception \<Rightarrow> string \<Rightarrow> py_exception + nat" where
  "loads_raising err encoded = Inl err"

definition loads_returning :: "string \<Rightarrow> py_exception + nat" where
  "loads_returning encoded = Inr 42"

definition dumps_raising :: "py_exception \<Rightarrow> nat \<Rightarrow> py_exception + string" where
  "dumps_raising err v = Inl err"

definition dumps_returning :: "nat \<Rightarrow> py_exception + string" where
  "dumps_returning v = Inr ''pickle''"

definition store_raising :: "py_exception \<Rightarrow> string \<Rightarrow> string \<Rightarrow> py_exception + unit" where
  "store_raising err name encoded = Inl err"

definition store_returning :: "string \<Rightarrow> string \<Rightarrow> py_exception + unit" where
  "store_returning name encoded = Inr ()"

section \<open>The delegate of the collections editor\<close>

text \<open>
  \<^verbatim>\<open>CollectionsDelegate\<close> and \<^verbatim>\<open>ToggleColumnDelegate\<close> of
  \<^verbatim>\<open>spyder/plugins/variableexplorer/widgets/collectionsdelegate.py\<close>.
\<close>

subsection \<open>Strings and numbers of Python\<close>

text \<open>\<^verbatim>\<open>s.strip(chars)\<close>: the characters of \<open>chars\<close> are dropped from both ends.\<close>

definition strip :: "string \<Rightarrow> string \<Rightarrow> string" where
  "strip chars s =
     rev (dropWhile (\<lambda>c. c \<in> set chars) (rev (dropWhile (\<lambda>c. c \<in> set chars) s)))"

text \<open>\<^verbatim>\<open>s.split(sep)\<close> for a separator of one character; the result is never empty.\<close>

fun split :: "char \<Rightarrow> string \<Rightarrow> string list" where
  "split sep [] = [[]]"
| "split sep (c # cs) =
     (if c = sep then [] # split sep cs
      else (case split sep cs of
              [] \<Rightarrow> [[c]]
            | w # ws \<Rightarrow> (c # w) # ws))"

text \<open>\<^verbatim>\<open>sub in s\<close> for strings.\<close>

fun contains :: "string \<Rightarrow> string \<Rightarrow> bool" where
  "contains sub [] = (sub = [])"
| "contains sub (c # cs) = (startswith (c # cs) sub \<or> contains sub cs)"

text \<open>
  \<^verbatim>\<open>int(s)\<close> for a string of bytes: white space around the number is ignored, a sign
  may come first, and the digits may be grouped by single underscores. \<open>None\<close> stands
  for the \<^verbatim>\<open>ValueError\<close> of a string that is not a number.
\<close>

definition is_space :: "char \<Rightarrow> bool" where
  "is_space c = ((of_char c :: nat) \<in> {9, 10, 11, 12, 13, 28, 29, 30, 31, 32})"

fun valid_digits :: "string \<Rightarrow> bool" where
  "valid_digits [] = False"
| "valid_digits [c] = is_digit c"
| "valid_digits (c # d # cs) =
     (is_digit c \<and> (if d = CHR ''_'' then valid_digits cs else valid_digits (d # cs)))"

definition unsigned_of_string :: "string \<Rightarrow> int option" where
  "unsigned_of_string s =
     (if valid_digits s then Some (int (nat_of_digits (filter (\<lambda>c. c \<noteq> CHR ''_'') s)))
      else None)"

definition int_of_string :: "string \<Rightarrow> int option" where
  "int_of_string s =
     (case rev (dropWhile is_space (rev (dropWhile is_space s))) of
        [] \<Rightarrow> None
      | c # cs \<Rightarrow>
          (if c = CHR ''-'' then map_option uminus (unsigned_of_string cs)
           else if c = CHR ''+'' then unsigned_of_string cs
           else unsigned_of_string (c # cs)))"

text \<open>
  What a cell of the type or size column holds (\<^verbatim>\<open>index.sibling(row, col).data()\<close>): the
  model shows a size as an integer when it is a count and as text such as \<^verbatim>\<open>(3, 3)\<close>
  when it is a shape.
\<close>

datatype cell = IntCell int | StrCell string

text \<open>\<^verbatim>\<open>int(val_size)\<close>.\<close>

fun py_int :: "cell \<Rightarrow> exc_class + int" where
  "py_int (IntCell n) = Inr n"
| "py_int (StrCell s) = (case int_of_string s of None \<Rightarrow> Inl ValueError | Some n \<Rightarrow> Inr n)"

subsection \<open>show_warning\<close>

text \<open>The thresholds are the floats \<^verbatim>\<open>1e5\<close> and \<^verbatim>\<open>5e6\<close>; integers are compared with them.\<close>

definition LARGE_COLLECTION :: int where
  "LARGE_COLLECTION = 100000"

definition LARGE_ARRAY :: int where
  "LARGE_ARRAY = 5000000"

text \<open>
  \<^verbatim>\<open>[int(s) for s in val_size.strip("()").split(",") if s]\<close>. The result is \<open>Inl\<close> the
  class of the exception raised: an integer has no \<^verbatim>\<open>strip\<close>, and a piece may fail to
  be a number.
\<close>

fun shape_of :: "cell \<Rightarrow> exc_class + int list" where
  "shape_of (IntCell n) = Inl AttributeError"
| "shape_of (StrCell s) =
     (case those (map int_of_string (filter (\<lambda>s. s \<noteq> []) (split CHR '','' (strip ''()'' s)))) of
        None \<Rightarrow> Inl ValueError
      | Some shape \<Rightarrow> Inr shape)"

text \<open>\<^verbatim>\<open>functools.reduce(operator.mul, shape)\<close>, a \<^verbatim>\<open>TypeError\<close> on the empty list.\<close>

fun reduce_mul :: "int list \<Rightarrow> exc_class + int" where
  "reduce_mul [] = Inl TypeError"
| "reduce_mul (d # ds) = Inr (foldl (*) d ds)"

definition is_collection_type :: "string \<Rightarrow> bool" where
  "is_collection_type val_type = (val_type \<in> set [''list'', ''set'', ''tuple'', ''dict''])"

definition is_array_type :: "string \<Rightarrow> bool" where
  "is_array_type val_type =
     (val_type \<in> set [''DataFrame'', ''Series''] \<or> contains ''Array'' val_type \<or>
      contains ''Index'' val_type)"

text \<open>
  \<^verbatim>\<open>show_warning\<close> on the type and the size of the row. In the first branch
  \<^verbatim>\<open>int(val_size)\<close> stands outside any \<^verbatim>\<open>try\<close>; in the second every
  \<^verbatim>\<open>Exception\<close> is passed over.
\<close>

definition show_warning :: "string \<Rightarrow> cell \<Rightarrow> exc_class + bool" where
  "show_warning val_type val_size =
     (if is_collection_type val_type then
        (case py_int val_size of
           Inl e \<Rightarrow> Inl e
         | Inr n \<Rightarrow> Inr (LARGE_COLLECTION < n))
      else if is_array_type val_type then
        (case shape_of val_size of
           Inl e \<Rightarrow> Inr False
         | Inr shape \<Rightarrow>
             (case reduce_mul shape of
                Inl e \<Rightarrow> Inr False
              | Inr n \<Rightarrow> Inr (LARGE_ARRAY < n)))
      else Inr False)"

subsection \<open>Values and their accessors\<close>

text \<open>
  Python values as far as the accessors look into them: the built-in containers, objects
  with attributes, and scalars. A key of the table is an index or a name.
\<close>

datatype pykey = KInt int | KStr string

datatype pyval =
    PNone
  | PScalar string
  | PList "pyval list"
  | PTuple "pyval list"
  | PSet "pyval list"
  | PFrozenset "pyval list"
  | PDict "(pykey \<times> pyval) list"
  | PObject "(string \<times> pyval) list"

text \<open>\<^verbatim>\<open>xs[i]\<close> on a list or tuple: a negative index counts from the end.\<close>

definition py_index :: "'a list \<Rightarrow> int \<Rightarrow> py_exception + 'a" where
  "py_index xs i =
     (let n = int (length xs); j = (if i < 0 then n + i else i)
      in if 0 \<le> j \<and> j < n then Inr (xs ! nat j) else Inl index_error)"

text \<open>
  \<^verbatim>\<open>data[key]\<close> on the built-in containers. A sequence takes an integer, a set takes
  no subscript at all.
\<close>

fun getitem :: "pyval \<Rightarrow> pykey \<Rightarrow> py_exception + pyval" where
  "getitem (PList xs) (KInt i) = py_index xs i"
| "getitem (PList xs) (KStr s) = Inl type_error"
| "getitem (PTuple xs) (KInt i) = py_index xs i"
| "getitem (PTuple xs) (KStr s) = Inl type_error"
| "getitem (PDict kvs) k = (case map_of kvs k of None \<Rightarrow> Inl key_error | Some v \<Rightarrow> Inr v)"
| "getitem v k = Inl type_error"

text \<open>\<^verbatim>\<open>isinstance(data, (tuple, list, dict, set))\<close>; a frozenset is not a set.\<close>

fun is_container :: "pyval \<Rightarrow> bool" where
  "is_container (PTuple xs) = True"
| "is_container (PList xs) = True"
| "is_container (PDict kvs) = True"
| "is_container (PSet xs) = True"
| "is_container v = False"

text \<open>
  \<^verbatim>\<open>getattr\<close> on an object whose attributes are plain values. The accessors take
  \<^verbatim>\<open>getattr\<close> as a parameter, since a property may run any code.
\<close>

fun object_getattr :: "pyval \<Rightarrow> pykey \<Rightarrow> py_exception + pyval" where
  "object_getattr v (KInt i) = Inl type_error"
| "object_getattr (PObject attrs) (KStr a) =
     (case map_of attrs a of None \<Rightarrow> Inl attribute_error | Some v \<Rightarrow> Inr v)"
| "object_getattr v (KStr a) = Inl attribute_error"

text \<open>
  The nested function \<^verbatim>\<open>datafun\<close> of \<^verbatim>\<open>CollectionsDelegate.make_data_function\<close>.
  \<open>data_function s\<close> is the call \<^verbatim>\<open>self.data_function()\<close> in the state \<open>s\<close> of the
  program at the time of the refresh; \<open>key\<close> is the key captured when the editor was
  created.
\<close>

definition datafun ::
  "('s \<Rightarrow> py_exception + pyval) \<Rightarrow> (pyval \<Rightarrow> pykey \<Rightarrow> py_exception + pyval) \<Rightarrow> pykey \<Rightarrow> 's
     \<Rightarrow> py_exception + pyval"
where
  "datafun data_function py_getattr key s =
     (case data_function s of
        Inl err \<Rightarrow> Inl err
      | Inr data \<Rightarrow>
          (if is_container data then getitem data key
           else
             (case py_getattr data key of
                Inr v \<Rightarrow> Inr v
              | Inl err \<Rightarrow>
                  (if isinstance err [NotImplementedError, AttributeError, TypeError, ValueError]
                   then Inr PNone
                   else Inl err))))"

text \<open>
  \<^verbatim>\<open>CollectionsDelegate.make_data_function\<close>: \<open>keys\<close> is \<^verbatim>\<open>index.model().keys\<close> and
  \<open>row\<close> is \<^verbatim>\<open>index.row()\<close> when the editor is created.
\<close>

definition make_data_function ::
  "('s \<Rightarrow> py_exception + pyval) option \<Rightarrow> (pyval \<Rightarrow> pykey \<Rightarrow> py_exception + pyval) \<Rightarrow>
     pykey list \<Rightarrow> int \<Rightarrow> py_exception + ('s \<Rightarrow> py_exception + pyval) option"
where
  "make_data_function data_function py_getattr keys row =
     (case data_function of
        None \<Rightarrow> Inr None
      | Some f \<Rightarrow>
          (case py_index keys row of
             Inl err \<Rightarrow> Inl err
           | Inr key \<Rightarrow> Inr (Some (datafun f py_getattr key))))"

text \<open>The loop \<^verbatim>\<open>for attribute_name in path_elements: data = getattr(data, attribute_name)\<close>.\<close>

fun walk_path ::
  "(pyval \<Rightarrow> pykey \<Rightarrow> py_exception + pyval) \<Rightarrow> pyval \<Rightarrow> string list \<Rightarrow> py_exception + pyval"
where
  "walk_path py_getattr data [] = Inr data"
| "walk_path py_getattr data (a # as) =
     (case py_getattr data (KStr a) of
        Inl err \<Rightarrow> Inl err
      | Inr v \<Rightarrow> walk_path py_getattr v as)"

text \<open>The nested function \<^verbatim>\<open>datafun\<close> of \<^verbatim>\<open>ToggleColumnDelegate.make_data_function\<close>.\<close>

definition toggle_datafun ::
  "('s \<Rightarrow> py_exception + pyval) \<Rightarrow> (pyval \<Rightarrow> pykey \<Rightarrow> py_exception + pyval) \<Rightarrow> string list \<Rightarrow> 's
     \<Rightarrow> py_exception + pyval"
where
  "toggle_datafun data_function py_getattr path_elements s =
     (case data_function s of
        Inl err \<Rightarrow> Inl err
      | Inr data \<Rightarrow>
          (case walk_path py_getattr data path_elements of
             Inr v \<Rightarrow> Inr v
           | Inl err \<Rightarrow>
               (if isinstance err [NotImplementedError, AttributeError, TypeError, ValueError]
                then Inr PNone
                else Inl err)))"

text \<open>
  \<^verbatim>\<open>ToggleColumnDelegate.make_data_function\<close>: \<open>obj_path\<close> is
  \<^verbatim>\<open>index.model().get_key(index).obj_path\<close>; its first element, the name of the variable,
  is deleted.
\<close>

definition toggle_make_data_function ::
  "('s \<Rightarrow> py_exception + pyval) option \<Rightarrow> (pyval \<Rightarrow> pykey \<Rightarrow> py_exception + pyval) \<Rightarrow>
     string \<Rightarrow> ('s \<Rightarrow> py_exception + pyval) option"
where
  "toggle_make_data_function data_function py_getattr obj_path =
     (case data_function of
        None \<Rightarrow> None
      | Some f \<Rightarrow> Some (toggle_datafun f py_getattr (tl (split CHR ''.'' obj_path))))"

text \<open>
  A root that is the dictionary \<^verbatim>\<open>{'aaa': 1, 'bbb': 2}\<close> and one that is an object with
  the single attribute \<^verbatim>\<open>bbb\<close>, whatever the state.
\<close>

definition dict_root :: "unit \<Rightarrow> py_exception + pyval" where
  "dict_root s = Inr (PDict [(KStr ''aaa'', PScalar ''1''), (KStr ''bbb'', PScalar ''2'')])"

definition object_root :: "unit \<Rightarrow> py_exception + pyval" where
  "object_root s = Inr (PObject [(''bbb'', PScalar ''2'')])"

subsection \<open>createEditor\<close>

text \<open>
  The answers of the tests that \<^verbatim>\<open>createEditor\<close> makes on the value it has fetched:
  the \<^verbatim>\<open>isinstance\<close> checks, \<^verbatim>\<open>is_known_type(value)\<close> and
  \<^verbatim>\<open>is_editable_type(value)\<close> of \<^verbatim>\<open>spyder_kernels.utils.nsview\<close>,
  \<^verbatim>\<open>is_text_string(value)\<close> with \<^verbatim>\<open>len(value)\<close>, whether \<^verbatim>\<open>value.time()\<close> raises a
  \<^verbatim>\<open>ValueError\<close>, and \<^verbatim>\<open>value.bit_length()\<close> of an integer.
\<close>

record value_traits =
  is_tuple :: bool
  is_set :: bool
  is_frozenset :: bool
  is_list :: bool
  is_dict :: bool
  is_known_type :: bool
  is_np_void :: bool
  is_ndarray :: bool
  is_image :: bool
  is_pandas :: bool
  is_date :: bool
  is_datetime :: bool
  time_raises :: bool
  is_text_string :: bool
  len :: nat
  is_editable_type :: bool
  is_int :: bool
  bit_length :: nat

text \<open>
  What else a call of \<^verbatim>\<open>createEditor\<close> depends on: the column and the type and size
  cells of the index, the answer to the warning, the outcome of \<^verbatim>\<open>self.get_value(index)\<close>
  (an exception, \<^verbatim>\<open>None\<close> or a value), whether copying the value raises (object
  explorer only), the flag \<^verbatim>\<open>object_explorer\<close>, \<^verbatim>\<open>self.parent().readonly\<close>, the type
  of the row in the source model, the result of \<^verbatim>\<open>setup_and_check\<close> of the editor, and
  whether Numpy, Pillow and Pandas are there (\<^verbatim>\<open>np.ndarray is not FakeObject\<close> and so on).
\<close>

record editor_request =
  index_column :: int
  index_type :: string
  index_size :: cell
  answer_no :: bool
  fetched :: "py_exception + value_traits option"
  copy_raises :: bool
  object_explorer :: bool
  parent_readonly :: bool
  row_type :: string
  setup_and_check :: bool
  numpy_present :: bool
  pil_present :: bool
  pandas_present :: bool

datatype widget = QLineEdit | QDateEdit | QDateTimeEdit

datatype dialog = CollectionsEditor | ArrayEditor | DataFrameEditor | TextEditor | ObjectExplorer

text \<open>
  What a call creates: nothing, an editor widget returned to the view, or a dialog
  registered by \<^verbatim>\<open>create_dialog\<close> with its \<^verbatim>\<open>readonly\<close> flag and whether it has a
  conversion function \<^verbatim>\<open>conv\<close>.
\<close>

datatype created = NoEditor | Widget widget | Dialog dialog bool bool

text \<open>\<^verbatim>\<open>int(32_767 * math.log(10) / math.log(2))\<close>.\<close>

definition MAX_INT_BIT_LENGTH_FOR_EDITING :: nat where
  "MAX_INT_BIT_LENGTH_FOR_EDITING = 108849"

text \<open>
  The flag computed at lines 215 and 216 of \<^verbatim>\<open>CollectionsDelegate.createEditor\<close> and,
  in the same words, at lines 717 and 718 of \<^verbatim>\<open>ToggleColumnDelegate.createEditor\<close>.
\<close>

definition readonly_flag :: "editor_request \<Rightarrow> value_traits \<Rightarrow> bool" where
  "readonly_flag req v = ((is_tuple v \<or> is_set v) \<or> parent_readonly req \<or> \<not> is_known_type v)"

text \<open>The chain of branches of \<^verbatim>\<open>CollectionsDelegate.createEditor\<close> after the value is there.\<close>

definition choose_editor :: "editor_request \<Rightarrow> value_traits \<Rightarrow> created" where
  "choose_editor req v =
     (let readonly = readonly_flag req v in
      if is_np_void v then NoEditor
      else if (is_list v \<or> is_set v \<or> is_frozenset v \<or> is_tuple v \<or> is_dict v) \<and>
              \<not> object_explorer req
      then Dialog CollectionsEditor readonly False
      else if is_ndarray v \<and> numpy_present req \<and> \<not> object_explorer req then
        (if \<not> setup_and_check req then NoEditor else Dialog ArrayEditor readonly False)
      else if is_image v \<and> numpy_present req \<and> pil_present req \<and> \<not> object_explorer req then
        (if \<not> setup_and_check req then NoEditor else Dialog ArrayEditor readonly True)
      else if is_pandas v \<and> pandas_present req \<and> \<not> object_explorer req then
        (let readonly = (if row_type req = ''Polars DataFrame'' then True else readonly) in
         if \<not> setup_and_check req then NoEditor else Dialog DataFrameEditor readonly False)
      else if is_date v \<and> \<not> object_explorer req then
        (if readonly then NoEditor
         else if is_datetime v then (if time_raises v then NoEditor else Widget QDateTimeEdit)
         else Widget QDateEdit)
      else if is_text_string v \<and> 40 < len v \<and> \<not> object_explorer req then
        (if setup_and_check req then Dialog TextEditor readonly False else NoEditor)
      else if is_editable_type v \<and> \<not> object_explorer req then
        (if readonly then NoEditor
         else if is_int v \<and> MAX_INT_BIT_LENGTH_FOR_EDITING \<le> bit_length v then NoEditor
         else Widget QLineEdit)
      else Dialog ObjectExplorer readonly False)"

text \<open>
  \<^verbatim>\<open>CollectionsDelegate.createEditor\<close>. The signals it emits and the message boxes it
  shows are left out; an exception that no clause catches is the result \<open>Inl\<close>.
\<close>

definition createEditor :: "editor_request \<Rightarrow> py_exception + created" where
  "createEditor req =
     (if index_column req < 3 then Inr NoEditor
      else
        (case show_warning (index_type req) (index_size req) of
           Inl c \<Rightarrow> Inl (new_exception [c] [])
         | Inr warn \<Rightarrow>
             (if warn \<and> answer_no req then Inr NoEditor
              else
                (case fetched req of
                   Inl err \<Rightarrow> (if isinstance err [Exception] then Inr NoEditor else Inl err)
                 | Inr None \<Rightarrow> Inr NoEditor
                 | Inr (Some v) \<Rightarrow> Inr (choose_editor req v)))))"

text \<open>The chain of branches of \<^verbatim>\<open>ToggleColumnDelegate.createEditor\<close>.\<close>

definition toggle_choose_editor :: "editor_request \<Rightarrow> value_traits \<Rightarrow> created" where
  "toggle_choose_editor req v =
     (let readonly = readonly_flag req v in
      if is_list v \<or> is_set v \<or> is_frozenset v \<or> is_tuple v \<or> is_dict v
      then Dialog CollectionsEditor readonly False
      else if is_ndarray v \<and> numpy_present req then
        (if \<not> setup_and_check req then NoEditor else Dialog ArrayEditor readonly False)
      else if is_image v \<and> numpy_present req \<and> pil_present req then
        (if \<not> setup_and_check req then NoEditor else Dialog ArrayEditor readonly True)
      else if is_pandas v \<and> pandas_present req then
        (if \<not> setup_and_check req then NoEditor else Dialog DataFrameEditor readonly False)
      else if is_date v then
        (if readonly then NoEditor
         else if is_datetime v then Widget QDateTimeEdit
         else Widget QDateEdit)
      else if is_text_string v \<and> 40 < len v then
        (if setup_and_check req then Dialog TextEditor readonly False else NoEditor)
      else if is_editable_type v then
        (if readonly then NoEditor else Widget QLineEdit)
      else NoEditor)"

text \<open>
  \<^verbatim>\<open>ToggleColumnDelegate.createEditor\<close>: the value is copied for a later restore inside
  the \<^verbatim>\<open>try\<close> block, before the test for \<^verbatim>\<open>None\<close>.
\<close>

definition toggle_createEditor :: "editor_request \<Rightarrow> py_exception + created" where
  "toggle_createEditor req =
     (case show_warning (index_type req) (index_size req) of
        Inl c \<Rightarrow> Inl (new_exception [c] [])
      | Inr warn \<Rightarrow>
          (if warn \<and> answer_no req then Inr NoEditor
           else
             (case fetched req of
                Inl err \<Rightarrow> (if isinstance err [Exception] then Inr NoEditor else Inl err)
              | Inr value \<Rightarrow>
                  (if copy_raises req then Inr NoEditor
                   else
                     (case value of
                        None \<Rightarrow> Inr NoEditor
                      | Some v \<Rightarrow> Inr (toggle_choose_editor req v))))))"

text \<open>
  Claim C9 in the words of the specification: read-only when the value is an immutable
  container (tuple or frozenset), or the parent is read-only, or the type of the value is
  not a recognised one.
\<close>

definition read_only_as_specified :: "editor_request \<Rightarrow> value_traits \<Rightarrow> bool" where
  "read_only_as_specified req v =
     ((is_tuple v \<or> is_frozenset v) \<or> parent_readonly req \<or> \<not> is_known_type v)"

text \<open>A value with none of the traits, and a request that asks nothing special.\<close>

definition plain_value :: value_traits where
  "plain_value =
     \<lparr>is_tuple = False, is_set = False, is_frozenset = False, is_list = False, is_dict = False,
      is_known_type = True, is_np_void = False, is_ndarray = False, is_image = False,
      is_pandas = False, is_date = False, is_datetime = False, time_raises = False,
      is_text_string = False, len = 0, is_editable_type = False, is_int = False,
      bit_length = 0\<rparr>"

definition request_for :: "value_traits \<Rightarrow> editor_request" where
  "request_for v =
     \<lparr>index_column = 3, index_type = ''object'', index_size = IntCell 1, answer_no = False,
      fetched = Inr (Some v), copy_raises = False, object_explorer = False,
      parent_readonly = False, row_type = ''object'', setup_and_check = True,
      numpy_present = True, pil_present = True, pandas_present = True\<rparr>"

text \<open>A set, a tuple and a list, as \<^verbatim>\<open>is_known_type\<close> knows them.\<close>

definition a_set :: value_traits where
  "a_set = plain_value\<lparr>is_set := True\<rparr>"

definition a_tuple :: value_traits where
  "a_tuple = plain_value\<lparr>is_tuple := True\<rparr>"

definition a_list :: value_traits where
  "a_list = plain_value\<lparr>is_list := True\<rparr>"

subsection \<open>Accepting and rejecting an editor\<close>

text \<open>
  What \<^verbatim>\<open>create_dialog\<close> stores in \<^verbatim>\<open>self._editors\<close> under \<^verbatim>\<open>id(editor)\<close>: the key,
  the \<^verbatim>\<open>readonly\<close> flag and the conversion function if there is one. \<open>editor_value\<close>
  is what \<^verbatim>\<open>data['editor'].get_value()\<close> returns when the editor is closed.
\<close>

record ('k, 'v) session =
  session_key :: 'k
  session_readonly :: bool
  session_conv :: "('v \<Rightarrow> py_exception + 'v) option"
  editor_value :: 'v

text \<open>
  The delegate and what it acts on: the registry \<^verbatim>\<open>self._editors\<close>, the table model
  behind the indexes, the calls of \<^verbatim>\<open>self.set_value\<close> made so far (an index is a row,
  \<open>None\<close> an invalid index), how often \<^verbatim>\<open>sig_free_memory_requested\<close> was emitted, and
  the texts of the error boxes shown.
\<close>

record ('k, 'v, 'm) delegate =
  editors :: "nat \<rightharpoonup> ('k, 'v) session"
  table_model :: 'm
  set_value_calls :: "(nat option \<times> 'v) list"
  free_memory_requested :: nat
  error_boxes :: "string list"

text \<open>
  The methods of the table model and the signal, which are not part of the delegate:
  \<^verbatim>\<open>model.get_index_from_key(key)\<close>, \<^verbatim>\<open>model.set_value(index, value)\<close>, which may
  raise, the assignment \<^verbatim>\<open>treeItem(index).obj = old_obj\<close> of the object explorer, and the
  exception that \<^verbatim>\<open>sig_free_memory_requested.emit()\<close> raises, if any.
\<close>

record ('k, 'v, 'm) collaborators =
  get_index_from_key :: "'m \<Rightarrow> 'k \<Rightarrow> nat option"
  model_set_value :: "nat \<Rightarrow> 'v \<Rightarrow> 'm \<Rightarrow> py_exception + 'm"
  set_tree_item_obj :: "nat \<Rightarrow> 'v \<Rightarrow> 'm \<Rightarrow> 'm"
  emit_raises :: "py_exception option"

text \<open>
  \<^verbatim>\<open>self.set_value(index, value)\<close>, the same in both delegates: the model is asked only
  when the index is valid.
\<close>

definition delegate_set_value ::
  "('k, 'v, 'm) collaborators \<Rightarrow> nat option \<Rightarrow> 'v \<Rightarrow> ('k, 'v, 'm, 'z) delegate_scheme
     \<Rightarrow> py_exception option \<times> ('k, 'v, 'm, 'z) delegate_scheme"
where
  "delegate_set_value env index v d =
     (let d1 = d\<lparr>set_value_calls := set_value_calls d @ [(index, v)]\<rparr> in
      case index of
        None \<Rightarrow> (None, d1)
      | Some i \<Rightarrow>
          (case model_set_value env i v (table_model d1) of
             Inl err \<Rightarrow> (Some err, d1)
           | Inr m \<Rightarrow> (None, d1\<lparr>table_model := m\<rparr>)))"

text \<open>\<^verbatim>\<open>self.set_value(index, conv_func(value))\<close>: the conversion runs first.\<close>

definition store_converted ::
  "('k, 'v, 'm) collaborators \<Rightarrow> nat option \<Rightarrow> ('k, 'v) session \<Rightarrow> ('k, 'v, 'm, 'z) delegate_scheme
     \<Rightarrow> py_exception option \<times> ('k, 'v, 'm, 'z) delegate_scheme"
where
  "store_converted env index data d =
     (case (case session_conv data of None \<Rightarrow> Inr (editor_value data)
            | Some conv_func \<Rightarrow> conv_func (editor_value data)) of
        Inl err \<Rightarrow> (Some err, d)
      | Inr v \<Rightarrow> delegate_set_value env index v d)"

text \<open>\<^verbatim>\<open>self._editors.pop(editor_id)\<close> with its \<^verbatim>\<open>KeyError\<close> passed over.\<close>

definition pop_editor :: "nat \<Rightarrow> ('k, 'v, 'm, 'z) delegate_scheme \<Rightarrow> ('k, 'v, 'm, 'z) delegate_scheme" where
  "pop_editor editor_id d =
     (case editors d editor_id of
        None \<Rightarrow> d
      | Some data \<Rightarrow> d\<lparr>editors := (editors d)(editor_id := None)\<rparr>)"

text \<open>\<^verbatim>\<open>free_memory\<close>: a \<^verbatim>\<open>RuntimeError\<close> of the emission is passed over.\<close>

definition free_memory ::
  "('k, 'v, 'm) collaborators \<Rightarrow> ('k, 'v, 'm, 'z) delegate_scheme
     \<Rightarrow> py_exception option \<times> ('k, 'v, 'm, 'z) delegate_scheme"
where
  "free_memory env d =
     (case emit_raises env of
        None \<Rightarrow> (None, d\<lparr>free_memory_requested := Suc (free_memory_requested d)\<rparr>)
      | Some err \<Rightarrow> (if isinstance err [RuntimeError] then (None, d) else (Some err, d)))"

text \<open>
  \<^verbatim>\<open>CollectionsDelegate.editor_accepted\<close>. The result is the exception that leaves the
  method, if any, and the state it leaves behind. The store is inside a \<^verbatim>\<open>try\<close> block
  that shows every \<^verbatim>\<open>Exception\<close> in an error box.
\<close>

definition editor_accepted ::
  "('k, 'v, 'm) collaborators \<Rightarrow> nat \<Rightarrow> ('k, 'v, 'm) delegate
     \<Rightarrow> py_exception option \<times> ('k, 'v, 'm) delegate"
where
  "editor_accepted env editor_id d =
     (case editors d editor_id of
        None \<Rightarrow> (Some key_error, d)
      | Some data \<Rightarrow>
          (if \<not> session_readonly data then
             (let index = get_index_from_key env (table_model d) (session_key data) in
              case store_converted env index data d of
                (None, d1) \<Rightarrow> free_memory env (pop_editor editor_id d1)
              | (Some msg, d1) \<Rightarrow>
                  (if isinstance msg [Exception] then
                     free_memory env
                       (pop_editor editor_id (d1\<lparr>error_boxes := error_boxes d1 @ [exc_str msg]\<rparr>))
                   else (Some msg, d1)))
           else free_memory env (pop_editor editor_id d)))"

text \<open>\<^verbatim>\<open>CollectionsDelegate.editor_rejected\<close>.\<close>

definition editor_rejected ::
  "('k, 'v, 'm) collaborators \<Rightarrow> nat \<Rightarrow> ('k, 'v, 'm, 'z) delegate_scheme
     \<Rightarrow> py_exception option \<times> ('k, 'v, 'm, 'z) delegate_scheme"
where
  "editor_rejected env editor_id d = free_memory env (pop_editor editor_id d)"

text \<open>
  \<^verbatim>\<open>ToggleColumnDelegate\<close> adds the index under edition (\<open>None\<close> until an editor is
  created) and the copy of the object made then. The index is a valid one:
  \<^verbatim>\<open>createEditor\<close> sets it only after it has fetched a value, and an invalid index has
  none.
\<close>

record ('k, 'v, 'm) toggle_delegate = "('k, 'v, 'm) delegate" +
  current_index :: "nat option"
  old_obj :: "'v option"

text \<open>
  \<^verbatim>\<open>ToggleColumnDelegate.editor_accepted\<close>: the store is not inside a \<^verbatim>\<open>try\<close> block,
  so an exception of it leaves the method at once.
\<close>

definition toggle_editor_accepted ::
  "('k, 'v, 'm) collaborators \<Rightarrow> nat \<Rightarrow> ('k, 'v, 'm) toggle_delegate
     \<Rightarrow> py_exception option \<times> ('k, 'v, 'm) toggle_delegate"
where
  "toggle_editor_accepted env editor_id d =
     (case editors d editor_id of
        None \<Rightarrow> (Some key_error, d)
      | Some data \<Rightarrow>
          (case (if \<not> session_readonly data then current_index d else None) of
             Some index \<Rightarrow>
               (case store_converted env (Some index) data d of
                  (None, d1) \<Rightarrow> free_memory env (pop_editor editor_id d1)
                | (Some err, d1) \<Rightarrow> (Some err, d1))
           | None \<Rightarrow> free_memory env (pop_editor editor_id d)))"

text \<open>\<^verbatim>\<open>restore_object\<close> and \<^verbatim>\<open>ToggleColumnDelegate.editor_rejected\<close>.\<close>

definition restore_object ::
  "('k, 'v, 'm) collaborators \<Rightarrow> ('k, 'v, 'm) toggle_delegate \<Rightarrow> ('k, 'v, 'm) toggle_delegate"
where
  "restore_object env d =
     (case (current_index d, old_obj d) of
        (Some i, Some obj) \<Rightarrow> d\<lparr>table_model := set_tree_item_obj env i obj (table_model d)\<rparr>
      | _ \<Rightarrow> d)"

definition toggle_editor_rejected ::
  "('k, 'v, 'm) collaborators \<Rightarrow> nat \<Rightarrow> ('k, 'v, 'm) toggle_delegate
     \<Rightarrow> py_exception option \<times> ('k, 'v, 'm) toggle_delegate"
where
  "toggle_editor_rejected env editor_id d = editor_rejected env editor_id (restore_object env d)"

text \<open>
  An object explorer with one editor open on row 0, and a model whose \<^verbatim>\<open>set_value\<close>
  raises an \<^verbatim>\<open>AttributeError\<close>, as \<^verbatim>\<open>setattr\<close> does on an attribute that cannot be
  set. The model is a list of values by row.
\<close>

definition failing_model :: "(string, int, int list) collaborators" where
  "failing_model =
     \<lparr>get_index_from_key = (\<lambda>m k. Some 0),
      model_set_value = (\<lambda>i v m. Inl attribute_error),
      set_tree_item_obj = (\<lambda>i v m. m[i := v]),
      emit_raises = None\<rparr>"

definition list_model :: "(string, int, int list) collaborators" where
  "list_model =
     \<lparr>get_index_from_key = (\<lambda>m k. Some 0),
      model_set_value = (\<lambda>i v m. if i < length m then Inr (m[i := v]) else Inl index_error),
      set_tree_item_obj = (\<lambda>i v m. m[i := v]),
      emit_raises = None\<rparr>"

definition open_session :: "bool \<Rightarrow> (string, int) session" where
  "open_session ro =
     \<lparr>session_key = ''day'', session_readonly = ro, session_conv = None, editor_value = 7\<rparr>"

definition one_editor :: "bool \<Rightarrow> (string, int, int list) delegate" where
  "one_editor ro =
     \<lparr>editors = [1 \<mapsto> open_session ro], table_model = [3], set_value_calls = [],
      free_memory_requested = 0, error_boxes = []\<rparr>"

definition toggle_one_editor :: "bool \<Rightarrow> (string, int, int list) toggle_delegate" where
  "toggle_one_editor ro =
     \<lparr>editors = [1 \<mapsto> open_session ro], table_model = [3], set_value_calls = [],
      free_memory_requested = 0, error_boxes = [], current_index = Some 0,
      old_obj = Some 3\<rparr>"

section \<open>Properties of the table model\<close>

subsection \<open>Natural sort\<close>














text \<open>The sort neither loses nor invents rows.\<close>

lemma length_insort_by: "length (insort_by le x xs) = Suc (length xs)"
  by (induction xs) simp_all

lemma set_insort_by: "set (insort_by le x xs) = insert x (set xs)"
  by (induction xs) auto

lemma length_sort_by: "length (sort_by le xs) = length xs"
  by (induction xs) (simp_all add: sort_by_def length_insort_by)

lemma set_sort_by: "set (sort_by le xs) = set xs"
  by (induction xs) (simp_all add: sort_by_def set_insort_by)

text \<open>
  The sort is a sort: its result is a permutation of the input, and it is in order whenever
  the comparator is total and transitive, as the comparator of the keys is.
\<close>

lemma mset_insort_by: "mset (insort_by le x xs) = add_mset x (mset xs)"
  by (induction xs) simp_all

lemma mset_sort_by: "mset (sort_by le xs) = mset xs"
  by (induction xs) (simp_all add: sort_by_def mset_insort_by)

lemma sorted_insort_by:
  assumes total: "\<And>x y. le x y \<or> le y x"
    and trans: "\<And>x y z. le x y \<Longrightarrow> le y z \<Longrightarrow> le x z"
  shows "sorted_wrt le ys \<Longrightarrow> sorted_wrt le (insort_by le x ys)"
proof (induction ys)
  case Nil
  then show ?case by simp
next
  case (Cons y ys)
  show ?case
  proof (cases "le x y")
    case True
    with Cons.prems trans show ?thesis by auto
  next
    case False
    with total have "le y x" by blast
    with Cons False show ?thesis by (auto simp: set_insort_by)
  qed
qed

lemma sorted_sort_by:
  assumes "\<And>x y. le x y \<or> le y x"
    and "\<And>x y z. le x y \<Longrightarrow> le y z \<Longrightarrow> le x z"
  shows "sorted_wrt le (sort_by le xs)"
proof (induction xs)
  case Nil
  then show ?case by (simp add: sort_by_def)
next
  case (Cons x xs)
  then have "sorted_wrt le (insort_by le x (sort_by le xs))"
    using assms by (intro sorted_insort_by) auto
  then show ?case by (simp add: sort_by_def)
qed

lemma string_less_irrefl: "\<not> string_less s s"
  by (induction s) simp_all

lemma string_less_trans: "string_less a b \<Longrightarrow> string_less b c \<Longrightarrow> string_less a c"
proof (induction a b arbitrary: c rule: string_less.induct)
  case (4 x xs y ys)
  then show ?case by (cases c) auto
qed (auto elim: string_less.elims)

lemma string_less_total: "string_less a b \<or> a = b \<or> string_less b a"
proof (induction a b rule: string_less.induct)
  case (4 x xs y ys)
  have "(of_char x :: nat) < of_char y \<or> x = y \<or> (of_char y :: nat) < of_char x"
    by (metis linorder_less_linear of_char_eq_iff)
  with 4 show ?case by auto
qed simp_all

lemma chunk_less_irrefl: "\<not> chunk_less x x"
  by (cases x) (simp_all add: string_less_irrefl)

lemma chunk_less_trans: "chunk_less x y \<Longrightarrow> chunk_less y z \<Longrightarrow> chunk_less x z"
  by (cases x; cases y; cases z) (auto intro: string_less_trans)

lemma chunk_less_total: "chunk_less x y \<or> x = y \<or> chunk_less y x"
  using string_less_total by (cases x; cases y) auto

lemma chunks_le_total: "chunks_le a b \<or> chunks_le b a"
proof (induction a b rule: chunks_le.induct)
  case (3 x xs y ys)
  then show ?case using chunk_less_total [of x y] by auto
qed simp_all

lemma chunks_le_trans: "chunks_le a b \<Longrightarrow> chunks_le b c \<Longrightarrow> chunks_le a c"
proof (induction a b arbitrary: c rule: chunks_le.induct)
  case (3 x xs y ys)
  then show ?case
  proof (cases c)
    case Nil
    with 3 show ?thesis by simp
  next
    case (Cons z zs)
    with 3 show ?thesis
      using chunk_less_total [of x y] chunk_less_total [of y z] chunk_less_trans [of x y z]
        chunk_less_trans [of z x y] chunk_less_trans [of y z x] chunk_less_irrefl
      by (auto; metis)
  qed
qed simp_all

lemma natural_sort_sorted: "sorted_wrt natural_le (natural_sort ks)"
  unfolding natural_sort_def
  by (rule sorted_sort_by) (auto simp: natural_le_def chunks_le_total intro: chunks_le_trans)

lemma natural_sort_mset: "mset (natural_sort ks) = mset ks"
  by (simp add: natural_sort_def mset_sort_by)

text \<open>
  The keys of the test \<^verbatim>\<open>test_dicts_natural_sorting_mixed_types\<close>, sorted as it expects.
\<close>

lemma natural_sort_mixed_case:
  "natural_sort [''DSeries'', ''aStr'', ''kDict'', ''List''] =
     [''aStr'', ''DSeries'', ''kDict'', ''List'']"
  by (simp add: natural_sort_def sort_by_def natural_le_def natsort_def runs_def is_digit_def
      nat_of_digits_def digit_value_def lower_char_def)




subsection \<open>Sorting by a column\<close>

text \<open>
  Every sort state shows a permutation of the entries, and on the key column the rows are
  in natural order when Ascending and in the converse order when Descending.
\<close>

lemma sorted_rows_mset: "mset (sorted_rows st es) = mset es"
  by (cases "direction st") (simp_all add: sorted_rows_def mset_sort_by)

lemma sorted_rows_key_ascending:
  "sorted_wrt (column_le Key) (sorted_rows \<lparr>column = Key, direction = Ascending\<rparr> es)"
proof -
  have "sorted_wrt (column_le Key) (sort_by (column_le Key) es)"
    by (rule sorted_sort_by) (auto simp: natural_le_def chunks_le_total intro: chunks_le_trans)
  then show ?thesis by (simp add: sorted_rows_def del: column_le.simps)
qed

lemma sorted_rows_key_descending:
  "sorted_wrt (\<lambda>a b. column_le Key b a) (sorted_rows \<lparr>column = Key, direction = Descending\<rparr> es)"
  using sorted_rows_key_ascending [of es]
  by (simp add: sorted_rows_def sorted_wrt_rev del: column_le.simps)


lemmas eval_sort = sorted_rows_def sort_by_def natural_le_def natsort_def runs_def is_digit_def
      nat_of_digits_def digit_value_def lower_char_def test_dict_def value_less_def activate_def initial_sort_state_def


text \<open>
  The model replays \<^verbatim>\<open>test_dict_in_tableview_sorting\<close>: three clicks on the key column,
  two on the value column, one on the key column again.
\<close>

lemma test_dict_in_tableview_sorting:
  "map entry_key (sorted_rows initial_sort_state test_dict) = [''2'', ''3'', ''1'']"
  "map entry_key (sorted_rows (activate Key initial_sort_state) test_dict) = [''1'', ''2'', ''3'']"
  "map entry_key (sorted_rows (activate Key (activate Key initial_sort_state)) test_dict) = [''3'', ''2'', ''1'']"
  "map entry_key (sorted_rows (activate Key (activate Key (activate Key initial_sort_state))) test_dict) = [''2'', ''3'', ''1'']"
  "map entry_key (sorted_rows (activate Value (activate Key (activate Key (activate Key initial_sort_state)))) test_dict) = [''3'', ''1'', ''2'']"
  "map entry_key (sorted_rows (activate Value (activate Value (activate Key (activate Key (activate Key initial_sort_state))))) test_dict) = [''2'', ''1'', ''3'']"
  "map entry_key (sorted_rows (activate Key (activate Value (activate Value (activate Key (activate Key (activate Key initial_sort_state)))))) test_dict) = [''1'', ''2'', ''3'']"
  by (simp_all add: eval_sort)

text \<open>
  Claim C5. Activating the column of the sort state again takes Ascending to Descending,
  Descending to InsertionOrder and InsertionOrder to Ascending. Hence three activations of
  one column, starting from a table in insertion order or sorted on another column, show
  the rows in their insertion order again; and activating a column other than the current
  one gives Ascending on that column.
\<close>

theorem sort_state_cycle:
  "activate c \<lparr>column = c, direction = Ascending\<rparr> = \<lparr>column = c, direction = Descending\<rparr> \<and>
   activate c \<lparr>column = c, direction = Descending\<rparr> = \<lparr>column = c, direction = InsertionOrder\<rparr> \<and>
   activate c \<lparr>column = c, direction = InsertionOrder\<rparr> = \<lparr>column = c, direction = Ascending\<rparr> \<and>
   (column st \<noteq> c \<or> direction st = InsertionOrder \<longrightarrow>
      sorted_rows (activate c (activate c (activate c st))) es = es) \<and>
   (column st \<noteq> c \<longrightarrow> activate c st = \<lparr>column = c, direction = Ascending\<rparr>)"
  by (auto simp: activate_def sorted_rows_def)

theorem sort_state_cycle_witness:
  "sorted_rows (activate Key (activate Key (activate Key initial_sort_state))) test_dict = test_dict \<and>
   activate Value \<lparr>column = Key, direction = Descending\<rparr> = \<lparr>column = Value, direction = Ascending\<rparr>"
proof -
  have h1: "column initial_sort_state \<noteq> Key \<or> direction initial_sort_state = InsertionOrder"
    by (simp add: initial_sort_state_def)
  have h2: "column \<lparr>column = Key, direction = Descending\<rparr> \<noteq> Value"
    by simp
  from h1 sort_state_cycle [of Key initial_sort_state test_dict]
  have "sorted_rows (activate Key (activate Key (activate Key initial_sort_state))) test_dict = test_dict"
    by blast
  moreover from h2 sort_state_cycle [of Value "\<lparr>column = Key, direction = Descending\<rparr>" test_dict]
  have "activate Value \<lparr>column = Key, direction = Descending\<rparr> = \<lparr>column = Value, direction = Ascending\<rparr>"
    by blast
  ultimately show ?thesis by blast
qed

subsection \<open>Paging\<close>

lemma fetch_more_page_size: "page_size (fetch_more n w) = page_size w"
  by (simp add: fetch_more_def)

lemma fetch_more_iterate:
  "loaded_count w \<le> n \<Longrightarrow>
   loaded_count ((fetch_more n ^^ k) w) = min (loaded_count w + k * page_size w) n \<and>
   page_size ((fetch_more n ^^ k) w) = page_size w"
proof (induction k)
  case 0
  then show ?case by simp
next
  case (Suc k)
  then show ?case by (auto simp: fetch_more_def fully_loaded_def min_def)
qed

lemma ceil_div_bound:
  fixes n page :: nat
  assumes "0 < page" and "(n + page - 1) div page \<le> k"
  shows "n \<le> k * page"
proof -
  have "n + page - 1 < ((n + page - 1) div page + 1) * page"
    using assms(1) by (simp add: dividend_less_times_div mult.commute)
  then have "n \<le> ((n + page - 1) div page) * page" using assms(1) by simp
  also have "\<dots> \<le> k * page" using assms(2) by simp
  finally show ?thesis .
qed

text \<open>
  Claim C6. On a model over \<open>n\<close> entries that is not fully loaded, \<open>fetch_more\<close> grows
  the number of loaded rows by one page, clamped to \<open>n\<close>; on a fully loaded model it
  changes nothing. Called at least \<open>ceil (n / page)\<close> times, from the first page or from
  any window that has loaded no more than \<open>n\<close> rows, it reaches the fully loaded state:
  the row count is \<open>n\<close>, and one more call leaves the window as it is.
\<close>

theorem fetch_more_reaches_fully_loaded:
  "(\<not> fully_loaded n w \<longrightarrow>
      loaded_count (fetch_more n w) = min (loaded_count w + page_size w) n) \<and>
   (fully_loaded n w \<longrightarrow> fetch_more n w = w) \<and>
   (0 < page_size w \<and> loaded_count w \<le> n \<and>
    (n + page_size w - 1) div page_size w \<le> k \<longrightarrow>
      row_count ((fetch_more n ^^ k) w) = n \<and>
      fully_loaded n ((fetch_more n ^^ k) w) \<and>
      fetch_more n ((fetch_more n ^^ k) w) = (fetch_more n ^^ k) w) \<and>
   (0 < page \<and> (n + page - 1) div page \<le> k \<longrightarrow>
      row_count ((fetch_more n ^^ k) (initial_window n page)) = n)"
proof -
  have reach: "loaded_count ((fetch_more n ^^ k) v) = n"
    if "0 < page_size v" and "loaded_count v \<le> n" and "(n + page_size v - 1) div page_size v \<le> k"
    for v
  proof -
    have "n \<le> k * page_size v" using that(1,3) by (rule ceil_div_bound)
    moreover have "loaded_count ((fetch_more n ^^ k) v) = min (loaded_count v + k * page_size v) n"
      using fetch_more_iterate [OF that(2), of k] by simp
    ultimately show ?thesis by simp
  qed
  have "loaded_count ((fetch_more n ^^ k) (initial_window n page)) = n"
    if "0 < page" and "(n + page - 1) div page \<le> k"
    using reach [of "initial_window n page"] that by (simp add: initial_window_def)
  with reach [of w] show ?thesis
    by (simp add: fetch_more_def fully_loaded_def row_count_def)
qed

theorem fetch_more_reaches_fully_loaded_witness:
  "row_count (initial_window 200 50) = 50 \<and>
   row_count (fetch_more 200 (initial_window 200 50)) = 100 \<and>
   row_count ((fetch_more 200 ^^ 4) (initial_window 200 50)) = 200 \<and>
   fetch_more 200 ((fetch_more 200 ^^ 4) (initial_window 200 50)) =
     (fetch_more 200 ^^ 4) (initial_window 200 50)"
  using fetch_more_reaches_fully_loaded [of 200 "initial_window 200 50" 4 50]
    fetch_more_reaches_fully_loaded [of 200 "fetch_more 200 (initial_window 200 50)" 0 50]
  by (simp add: row_count_def initial_window_def fully_loaded_def fetch_more_def)

section \<open>Properties of the remote value channel\<close>

lemmas exc_defs = new_exception_def timeout_error_def kernel_dead_error_def pickling_error_def
  key_error_def index_error_def type_error_def attribute_error_def zero_division_error_def
  remote_module_not_found_def local_module_not_found_def comm_error_def

subsection \<open>Fetching a value\<close>


lemma get_value_except_not_returned: "(get_value_except h ok err :: 'a outcome) \<noteq> Returned v"
  by (simp add: get_value_except_def split: lookup.split option.split)





text \<open>
  The clause for \<^verbatim>\<open>RuntimeError\<close> comes before the one for \<^verbatim>\<open>CommError\<close>, so a
  \<^verbatim>\<open>CommError\<close> that is a \<^verbatim>\<open>RuntimeError\<close> is reported as a dead kernel.
\<close>

lemma comm_error_reported_as_dead_kernel:
  "isinstance comm_error [CommError] \<and>
   get_value test_host (kernel_raising comm_error) loads_returning ''x'' =
     Raised_ValueError Reason_dead"
  by (simp add: get_value_def get_value_except_def isinstance_def exc_defs kernel_raising_def)

text \<open>
  A pickle that needs \<^verbatim>\<open>numpy._core\<close> on this side is reported as a Numpy mismatch, and
  one that cannot be read as not serializable.
\<close>

lemma get_value_examples:
  "get_value test_host kernel_returning
     (loads_raising (local_module_not_found ''numpy._core.numeric'')) ''x'' =
     Raised_ValueError Reason_mismatched_numpy"
  "get_value test_host kernel_returning (loads_raising pickling_error) ''x'' =
     Raised_ValueError Reason_not_picklable"
  "get_value test_host kernel_returning loads_returning ''x'' = Returned 42"
  by (simp_all add: get_value_def get_value_except_def isinstance_def exc_defs startswith_def
      kernel_returning_def loads_raising_def loads_returning_def test_host_def)

text \<open>A fetch that does not raise returns the unpickled value.\<close>

lemma get_value_success:
  "call_kernel name = Inr encoded \<Longrightarrow> loads encoded = Inr v \<Longrightarrow>
   get_value h call_kernel loads name = Returned v"
  by (simp add: get_value_def)

subsection \<open>Storing a value\<close>

text \<open>
  Claim C2 as stated fails: \<^verbatim>\<open>cloudpickle.dumps\<close> is called before the \<^verbatim>\<open>try\<close>
  block, so an exception of the encoding is not discarded but reaches the caller.
\<close>

theorem set_value_encoding_failure_counterexample:
  "dumps_raising pickling_error 0 = Inl pickling_error \<and>
   set_value (dumps_raising pickling_error) store_returning ''x'' 0 =
     Propagated pickling_error \<and>
   set_value (dumps_raising pickling_error) store_returning ''x'' 0 \<noteq> Returned ()"
  by (simp add: set_value_def dumps_raising_def)

text \<open>
  Claim C2, as amended. An exception of the encoding reaches the caller of
  \<open>set_value\<close> unchanged. When the kernel call raises an \<^verbatim>\<open>Exception\<close> that is no
  \<^verbatim>\<open>ModuleNotFoundError\<close>, \<open>set_value\<close> returns normally and the failure is
  discarded. For a \<^verbatim>\<open>ModuleNotFoundError\<close> whose reported module name can be read, it
  raises a \<^verbatim>\<open>ValueError\<close> with the Numpy-mismatch explanation when the name starts
  with \<^verbatim>\<open>numpy._core\<close>, and returns normally otherwise.
\<close>

theorem set_value_failures:
  "(dumps v = Inl err \<longrightarrow> set_value dumps call_kernel name v = Propagated err) \<and>
   (dumps v = Inr encoded \<and> call_kernel name encoded = Inl err \<and> isinstance err [Exception] \<longrightarrow>
      (\<not> isinstance err [ModuleNotFoundError] \<longrightarrow>
         set_value dumps call_kernel name v = Returned ()) \<and>
      (isinstance err [ModuleNotFoundError] \<longrightarrow>
         (\<forall>m. exc_wrapped_name err = Found (Some m) \<longrightarrow>
            set_value dumps call_kernel name v =
              (if startswith m ''numpy._core''
               then Raised_ValueError Reason_mismatched_numpy_console
               else Returned ()))))"
  by (simp add: set_value_def)

theorem set_value_failures_witness:
  "set_value dumps_returning (store_raising kernel_dead_error) ''x'' 0 = Returned () \<and>
   set_value dumps_returning (store_raising (remote_module_not_found ''numpy._core.multiarray''))
     ''x'' 0 = Raised_ValueError Reason_mismatched_numpy_console \<and>
   set_value dumps_returning (store_raising (remote_module_not_found ''foo'')) ''x'' 0 =
     Returned ()"
proof -
  have a: "isinstance kernel_dead_error [Exception] \<and>
      \<not> isinstance kernel_dead_error [ModuleNotFoundError]"
    by (simp add: isinstance_def exc_defs)
  have b: "isinstance (remote_module_not_found m) [Exception] \<and>
      isinstance (remote_module_not_found m) [ModuleNotFoundError] \<and>
      exc_wrapped_name (remote_module_not_found m) = Found (Some m)" for m
    by (simp add: isinstance_def exc_defs)
  have c: "startswith ''numpy._core.multiarray'' ''numpy._core'' \<and>
      \<not> startswith ''foo'' ''numpy._core''"
    by (simp add: startswith_def)
  have d: "dumps_returning 0 = Inr ''pickle''"
    by (simp add: dumps_returning_def)
  have e: "store_raising err ''x'' ''pickle'' = Inl err" for err
    by (simp add: store_raising_def)
  from a d e [of kernel_dead_error]
    set_value_failures [of dumps_returning 0 kernel_dead_error
      "store_raising kernel_dead_error" "''x''" "''pickle''"]
  have 1: "set_value dumps_returning (store_raising kernel_dead_error) ''x'' 0 = Returned ()"
    by simp
  from b [of "''numpy._core.multiarray''"] c d
    e [of "remote_module_not_found ''numpy._core.multiarray''"]
    set_value_failures [of dumps_returning 0 "remote_module_not_found ''numpy._core.multiarray''"
      "store_raising (remote_module_not_found ''numpy._core.multiarray'')" "''x''" "''pickle''"]
  have 2: "set_value dumps_returning
      (store_raising (remote_module_not_found ''numpy._core.multiarray'')) ''x'' 0 =
      Raised_ValueError Reason_mismatched_numpy_console"
    by simp
  from b [of "''foo''"] c d e [of "remote_module_not_found ''foo''"]
    set_value_failures [of dumps_returning 0 "remote_module_not_found ''foo''"
      "store_raising (remote_module_not_found ''foo'')" "''x''" "''pickle''"]
  have 3: "set_value dumps_returning (store_raising (remote_module_not_found ''foo'')) ''x'' 0 =
      Returned ()"
    by simp
  from 1 2 3 show ?thesis by blast
qed

section \<open>Properties of the delegate\<close>

subsection \<open>The warning for big values\<close>

lemma foldl_mult_prod_list: "foldl (*) (a::int) xs = a * prod_list xs"
  by (induction xs arbitrary: a) (simp_all add: mult.assoc)

lemma reduce_mul_prod_list: "reduce_mul shape = Inr n \<longleftrightarrow> shape \<noteq> [] \<and> n = prod_list shape"
  by (cases shape) (auto simp: foldl_mult_prod_list)

text \<open>
  What \<open>show_warning\<close> decides. For a collection type (\<^verbatim>\<open>list\<close>, \<^verbatim>\<open>set\<close>,
  \<^verbatim>\<open>tuple\<close>, \<^verbatim>\<open>dict\<close>) whose size reads as an integer, it is true exactly when that
  count exceeds \<open>LARGE_COLLECTION\<close>. For every other type it never raises, and it is
  true exactly when the type is array-like (\<^verbatim>\<open>DataFrame\<close>, \<^verbatim>\<open>Series\<close>, or a name
  with \<^verbatim>\<open>Array\<close> or \<^verbatim>\<open>Index\<close> in it), the size reads as a non-empty list of
  dimensions, and their product exceeds \<open>LARGE_ARRAY\<close>; a size that does not read so
  gives false.
\<close>

lemma show_warning_decision:
  "(is_collection_type val_type \<longrightarrow>
      (\<forall>n. py_int val_size = Inr n \<longrightarrow>
         show_warning val_type val_size = Inr (LARGE_COLLECTION < n))) \<and>
   (\<not> is_collection_type val_type \<longrightarrow>
      show_warning val_type val_size =
        Inr (is_array_type val_type \<and>
             (\<exists>shape. shape_of val_size = Inr shape \<and> shape \<noteq> [] \<and>
                LARGE_ARRAY < prod_list shape)))"
proof -
  have "show_warning val_type val_size =
        Inr (\<exists>shape. shape_of val_size = Inr shape \<and> shape \<noteq> [] \<and> LARGE_ARRAY < prod_list shape)"
    if "\<not> is_collection_type val_type" "is_array_type val_type"
  proof (cases "shape_of val_size")
    case (Inl e)
    with that show ?thesis by (simp add: show_warning_def)
  next
    case (Inr shape)
    with that show ?thesis
      by (cases shape) (simp_all add: show_warning_def foldl_mult_prod_list)
  qed
  then show ?thesis
    by (auto simp: show_warning_def)
qed

lemmas eval_warning = show_warning_def is_collection_type_def is_array_type_def int_of_string_def
  is_space_def unsigned_of_string_def is_digit_def strip_def nat_of_digits_def digit_value_def
  LARGE_ARRAY_def LARGE_COLLECTION_def startswith_def

lemma show_warning_examples:
  "show_warning ''list'' (IntCell 100001) = Inr True \<and>
   show_warning ''dict'' (IntCell 100000) = Inr False \<and>
   show_warning ''DataFrame'' (StrCell ''(3000, 3000)'') = Inr True \<and>
   show_warning ''Array of float64'' (StrCell ''(3000, 30)'') = Inr False \<and>
   show_warning ''MyArray'' (StrCell ''big'') = Inr False \<and>
   show_warning ''int'' (IntCell 1) = Inr False"
proof -
  have c: "is_collection_type ''list'' \<and> is_collection_type ''dict'' \<and>
      \<not> is_collection_type ''DataFrame'' \<and> \<not> is_collection_type ''Array of float64'' \<and>
      \<not> is_collection_type ''MyArray'' \<and> \<not> is_collection_type ''int''"
    by (simp add: is_collection_type_def)
  have a: "is_array_type ''DataFrame'' \<and> is_array_type ''Array of float64'' \<and>
      is_array_type ''MyArray'' \<and> \<not> is_array_type ''int''"
    by (simp add: is_array_type_def startswith_def)
  have s: "shape_of (StrCell ''(3000, 3000)'') = Inr [3000, 3000] \<and>
      shape_of (StrCell ''(3000, 30)'') = Inr [3000, 30] \<and>
      shape_of (StrCell ''big'') = Inl ValueError"
    by (simp add: eval_warning)
  from c show_warning_decision [of "''list''" "IntCell 100001"]
  have 1: "show_warning ''list'' (IntCell 100001) = Inr True"
    by (simp add: LARGE_COLLECTION_def)
  from c show_warning_decision [of "''dict''" "IntCell 100000"]
  have 2: "show_warning ''dict'' (IntCell 100000) = Inr False"
    by (simp add: LARGE_COLLECTION_def)
  from c a s show_warning_decision [of "''DataFrame''" "StrCell ''(3000, 3000)''"]
  have 3: "show_warning ''DataFrame'' (StrCell ''(3000, 3000)'') = Inr True"
    by (simp add: LARGE_ARRAY_def)
  from c a s show_warning_decision [of "''Array of float64''" "StrCell ''(3000, 30)''"]
  have 4: "show_warning ''Array of float64'' (StrCell ''(3000, 30)'') = Inr False"
    by (simp add: LARGE_ARRAY_def)
  from c a s show_warning_decision [of "''MyArray''" "StrCell ''big''"]
  have 5: "show_warning ''MyArray'' (StrCell ''big'') = Inr False"
    by simp
  from c a show_warning_decision [of "''int''" "IntCell 1"]
  have 6: "show_warning ''int'' (IntCell 1) = Inr False"
    by simp
  from 1 2 3 4 5 6 show ?thesis by blast
qed

text \<open>
  Claim C7 says that \<open>show_warning\<close> is true exactly for the big collections and the
  big arrays, and that a malformed size descriptor gives false rather than an exception.
  The array branch is guarded by a \<^verbatim>\<open>try\<close>, but in the collection branch
  \<^verbatim>\<open>int(val_size)\<close> is outside any: for the type \<^verbatim>\<open>list\<close> with the size
  \<^verbatim>\<open>(3, 3)\<close> the method raises a \<^verbatim>\<open>ValueError\<close>, while the same size under an array
  type gives false.
\<close>

theorem show_warning_raises_on_collection_shape:
  "is_collection_type ''list'' \<and>
   show_warning ''list'' (StrCell ''(3, 3)'') = Inl ValueError \<and>
   show_warning ''MyArray'' (StrCell ''(3, 3)'') = Inr False \<and>
   show_warning ''MyArray'' (StrCell ''big'') = Inr False"
  by (simp add: eval_warning)

subsection \<open>Accessors\<close>

text \<open>
  Claim C8, as amended. An accessor made from a key (\<open>make_data_function\<close>) or from an
  attribute path (\<open>toggle_make_data_function\<close>) resolves that same key or path in
  every later state, and never another one. When the root function raises, the exception
  reaches the caller; when the root is a tuple, list, dict or set, the result is that of
  \<^verbatim>\<open>data[key]\<close>, its \<^verbatim>\<open>KeyError\<close>, \<^verbatim>\<open>IndexError\<close> or \<^verbatim>\<open>TypeError\<close>
  included; when an attribute lookup raises \<^verbatim>\<open>NotImplementedError\<close>,
  \<^verbatim>\<open>AttributeError\<close>, \<^verbatim>\<open>TypeError\<close> or \<^verbatim>\<open>ValueError\<close>, the accessor returns
  \<^verbatim>\<open>None\<close> and reports no error; any other exception of the lookup reaches the caller.
\<close>

theorem accessor_resolves_captured_key:
  "(make_data_function (Some df) g keys row = Inr (Some f) \<longrightarrow>
      (\<exists>key. py_index keys row = Inr key \<and>
         (\<forall>s. (\<forall>err. df s = Inl err \<longrightarrow> f s = Inl err) \<and>
              (\<forall>data. df s = Inr data \<and> is_container data \<longrightarrow> f s = getitem data key) \<and>
              (\<forall>data v. df s = Inr data \<and> \<not> is_container data \<and> g data key = Inr v \<longrightarrow>
                 f s = Inr v) \<and>
              (\<forall>data err. df s = Inr data \<and> \<not> is_container data \<and> g data key = Inl err \<longrightarrow>
                 f s =
                   (if isinstance err [NotImplementedError, AttributeError, TypeError, ValueError]
                    then Inr PNone else Inl err))))) \<and>
   (toggle_make_data_function (Some df) g obj_path = Some f' \<longrightarrow>
      (\<forall>s. (\<forall>err. df s = Inl err \<longrightarrow> f' s = Inl err) \<and>
           (\<forall>data v. df s = Inr data \<and>
                walk_path g data (tl (split CHR ''.'' obj_path)) = Inr v \<longrightarrow>
              f' s = Inr v) \<and>
           (\<forall>data err. df s = Inr data \<and>
                walk_path g data (tl (split CHR ''.'' obj_path)) = Inl err \<longrightarrow>
              f' s =
                (if isinstance err [NotImplementedError, AttributeError, TypeError, ValueError]
                 then Inr PNone else Inl err))))"
proof -
  have "\<exists>key. py_index keys row = Inr key \<and> f = datafun df g key"
    if "make_data_function (Some df) g keys row = Inr (Some f)"
    using that by (auto simp: make_data_function_def split: sum.splits)
  moreover have "f' = toggle_datafun df g (tl (split CHR ''.'' obj_path))"
    if "toggle_make_data_function (Some df) g obj_path = Some f'"
    using that by (simp add: toggle_make_data_function_def)
  ultimately show ?thesis
    by (auto simp: datafun_def toggle_datafun_def)
qed

theorem accessor_resolves_captured_key_witness:
  "datafun dict_root object_getattr (KStr ''bbb'') () = Inr (PScalar ''2'') \<and>
   toggle_datafun object_root object_getattr [''bbb''] () = Inr (PScalar ''2'')"
proof -
  have m: "make_data_function (Some dict_root) object_getattr [KStr ''aaa'', KStr ''bbb''] 1 =
      Inr (Some (datafun dict_root object_getattr (KStr ''bbb'')))"
    by (simp add: make_data_function_def py_index_def)
  have k: "py_index [KStr ''aaa'', KStr ''bbb''] 1 = Inr (KStr ''bbb'')"
    by (simp add: py_index_def)
  have d: "dict_root () = Inr (PDict [(KStr ''aaa'', PScalar ''1''), (KStr ''bbb'', PScalar ''2'')]) \<and>
      is_container (PDict [(KStr ''aaa'', PScalar ''1''), (KStr ''bbb'', PScalar ''2'')])"
    by (simp add: dict_root_def)
  from m k d accessor_resolves_captured_key [of dict_root object_getattr
      "[KStr ''aaa'', KStr ''bbb'']" 1 "datafun dict_root object_getattr (KStr ''bbb'')"]
  have "datafun dict_root object_getattr (KStr ''bbb'') () =
      getitem (PDict [(KStr ''aaa'', PScalar ''1''), (KStr ''bbb'', PScalar ''2'')]) (KStr ''bbb'')"
    by auto
  then have 1: "datafun dict_root object_getattr (KStr ''bbb'') () = Inr (PScalar ''2'')"
    by simp
  have t: "toggle_make_data_function (Some object_root) object_getattr ''obj.bbb'' =
      Some (toggle_datafun object_root object_getattr [''bbb''])"
    by (simp add: toggle_make_data_function_def)
  have p: "tl (split CHR ''.'' ''obj.bbb'') = [''bbb'']"
    by simp
  have w: "object_root () = Inr (PObject [(''bbb'', PScalar ''2'')]) \<and>
      walk_path object_getattr (PObject [(''bbb'', PScalar ''2'')]) [''bbb''] = Inr (PScalar ''2'')"
    by (simp add: object_root_def)
  from t p w accessor_resolves_captured_key [of object_root object_getattr _ _ _ "''obj.bbb''"
      "toggle_datafun object_root object_getattr [''bbb'']"]
  have 2: "toggle_datafun object_root object_getattr [''bbb''] () = Inr (PScalar ''2'')"
    by auto
  from 1 2 show ?thesis by blast
qed

text \<open>
  Claim C8 as stated fails on its second part: when the attribute is no longer there, the
  lookup fails, and both accessors return \<^verbatim>\<open>None\<close> instead of reporting an error.
\<close>

theorem accessor_silent_none_counterexample:
  "object_root () = Inr (PObject [(''bbb'', PScalar ''2'')]) \<and>
   object_getattr (PObject [(''bbb'', PScalar ''2'')]) (KStr ''aaa'') = Inl attribute_error \<and>
   make_data_function (Some object_root) object_getattr [KStr ''aaa'', KStr ''bbb''] 0 =
     Inr (Some (datafun object_root object_getattr (KStr ''aaa''))) \<and>
   datafun object_root object_getattr (KStr ''aaa'') () = Inr PNone \<and>
   toggle_make_data_function (Some object_root) object_getattr ''obj.aaa'' =
     Some (toggle_datafun object_root object_getattr [''aaa'']) \<and>
   toggle_datafun object_root object_getattr [''aaa''] () = Inr PNone"
  by (simp add: make_data_function_def toggle_make_data_function_def py_index_def datafun_def
      toggle_datafun_def object_root_def isinstance_def exc_defs)

text \<open>A key that is no longer in the dictionary is reported: the \<^verbatim>\<open>KeyError\<close> reaches the caller.\<close>

lemma accessor_raises_key_error:
  "datafun dict_root object_getattr (KStr ''ccc'') () = Inl key_error"
  by (simp add: datafun_def dict_root_def)

subsection \<open>The read-only flag\<close>

lemma choose_editor_dialog:
  "choose_editor req v = Dialog k ro c \<Longrightarrow>
   ro = (readonly_flag req v \<or> (k = DataFrameEditor \<and> row_type req = ''Polars DataFrame''))"
  by (auto simp: choose_editor_def Let_def split: if_splits)

lemma choose_editor_widget: "choose_editor req v = Widget w \<Longrightarrow> \<not> readonly_flag req v"
  by (auto simp: choose_editor_def Let_def split: if_splits)

lemma toggle_choose_editor_dialog:
  "toggle_choose_editor req v = Dialog k ro c \<Longrightarrow> ro = readonly_flag req v"
  by (auto simp: toggle_choose_editor_def Let_def split: if_splits)

lemma toggle_choose_editor_widget:
  "toggle_choose_editor req v = Widget w \<Longrightarrow> \<not> readonly_flag req v"
  by (auto simp: toggle_choose_editor_def Let_def split: if_splits)

lemma createEditor_created:
  "createEditor req = Inr e \<Longrightarrow> e \<noteq> NoEditor \<Longrightarrow>
   \<exists>v. fetched req = Inr (Some v) \<and> e = choose_editor req v"
  by (auto simp: createEditor_def split: if_splits sum.splits option.splits)

lemma toggle_createEditor_created:
  "toggle_createEditor req = Inr e \<Longrightarrow> e \<noteq> NoEditor \<Longrightarrow>
   \<exists>v. fetched req = Inr (Some v) \<and> e = toggle_choose_editor req v"
  by (auto simp: toggle_createEditor_def split: if_splits sum.splits option.splits)

text \<open>
  Claim C9, as amended. For every value that \<open>createEditor\<close> opens in a dialog, the
  \<^verbatim>\<open>readonly\<close> flag of the dialog is true exactly when the value is an instance of
  \<^verbatim>\<open>tuple\<close> or of \<^verbatim>\<open>set\<close>, or the parent is read-only, or
  \<^verbatim>\<open>is_known_type(value)\<close> is false, or, in \<^verbatim>\<open>CollectionsDelegate\<close>, the dialog is a
  \<^verbatim>\<open>DataFrameEditor\<close> on a row of type \<^verbatim>\<open>Polars DataFrame\<close>. An editor widget
  (line edit, date edit) is created only when the first three conditions are all false.
\<close>

theorem readonly_flag_of_editor:
  "(createEditor req = Inr (Dialog k ro c) \<longrightarrow>
      (\<exists>v. fetched req = Inr (Some v) \<and>
         ro = (is_tuple v \<or> is_set v \<or> parent_readonly req \<or> \<not> is_known_type v \<or>
               (k = DataFrameEditor \<and> row_type req = ''Polars DataFrame'')))) \<and>
   (createEditor req = Inr (Widget w) \<longrightarrow>
      (\<exists>v. fetched req = Inr (Some v) \<and>
         \<not> (is_tuple v \<or> is_set v \<or> parent_readonly req \<or> \<not> is_known_type v))) \<and>
   (toggle_createEditor req = Inr (Dialog k ro c) \<longrightarrow>
      (\<exists>v. fetched req = Inr (Some v) \<and>
         ro = (is_tuple v \<or> is_set v \<or> parent_readonly req \<or> \<not> is_known_type v))) \<and>
   (toggle_createEditor req = Inr (Widget w) \<longrightarrow>
      (\<exists>v. fetched req = Inr (Some v) \<and>
         \<not> (is_tuple v \<or> is_set v \<or> parent_readonly req \<or> \<not> is_known_type v)))"
proof (intro conjI impI)
  assume "createEditor req = Inr (Dialog k ro c)"
  then obtain v where "fetched req = Inr (Some v)" "Dialog k ro c = choose_editor req v"
    using createEditor_created by blast
  then show "\<exists>v. fetched req = Inr (Some v) \<and>
      ro = (is_tuple v \<or> is_set v \<or> parent_readonly req \<or> \<not> is_known_type v \<or>
            (k = DataFrameEditor \<and> row_type req = ''Polars DataFrame''))"
    using choose_editor_dialog [of req v k ro c] by (auto simp: readonly_flag_def)
next
  assume "createEditor req = Inr (Widget w)"
  then obtain v where "fetched req = Inr (Some v)" "Widget w = choose_editor req v"
    using createEditor_created by blast
  then show "\<exists>v. fetched req = Inr (Some v) \<and>
      \<not> (is_tuple v \<or> is_set v \<or> parent_readonly req \<or> \<not> is_known_type v)"
    using choose_editor_widget [of req v w] by (auto simp: readonly_flag_def)
next
  assume "toggle_createEditor req = Inr (Dialog k ro c)"
  then obtain v where "fetched req = Inr (Some v)" "Dialog k ro c = toggle_choose_editor req v"
    using toggle_createEditor_created by blast
  then show "\<exists>v. fetched req = Inr (Some v) \<and>
      ro = (is_tuple v \<or> is_set v \<or> parent_readonly req \<or> \<not> is_known_type v)"
    using toggle_choose_editor_dialog [of req v k ro c] by (auto simp: readonly_flag_def)
next
  assume "toggle_createEditor req = Inr (Widget w)"
  then obtain v where "fetched req = Inr (Some v)" "Widget w = toggle_choose_editor req v"
    using toggle_createEditor_created by blast
  then show "\<exists>v. fetched req = Inr (Some v) \<and>
      \<not> (is_tuple v \<or> is_set v \<or> parent_readonly req \<or> \<not> is_known_type v)"
    using toggle_choose_editor_widget [of req v w] by (auto simp: readonly_flag_def)
qed

lemmas eval_editor = createEditor_def toggle_createEditor_def choose_editor_def
  toggle_choose_editor_def readonly_flag_def request_for_def plain_value_def a_set_def
  a_tuple_def a_list_def show_warning_def is_collection_type_def is_array_type_def
  startswith_def read_only_as_specified_def

text \<open>
  As in the test \<^verbatim>\<open>test_edit_mutable_and_immutable_types\<close>: a tuple inside a list is opened
  read-only, a list inside a list is not.
\<close>

lemma createEditor_examples:
  "createEditor (request_for a_tuple) = Inr (Dialog CollectionsEditor True False)"
  "createEditor (request_for a_list) = Inr (Dialog CollectionsEditor False False)"
  "createEditor (request_for a_set) = Inr (Dialog CollectionsEditor True False)"
  "toggle_createEditor (request_for a_list) = Inr (Dialog CollectionsEditor False False)"
  by (simp_all add: eval_editor)

theorem readonly_flag_of_editor_witness:
  "createEditor (request_for a_tuple) = Inr (Dialog CollectionsEditor True False) \<and>
   is_tuple a_tuple \<and>
   createEditor (request_for a_list) = Inr (Dialog CollectionsEditor False False) \<and>
   \<not> (is_tuple a_list \<or> is_set a_list \<or> parent_readonly (request_for a_list) \<or>
      \<not> is_known_type a_list)"
proof -
  have t: "createEditor (request_for a_tuple) = Inr (Dialog CollectionsEditor True False)"
    and l: "createEditor (request_for a_list) = Inr (Dialog CollectionsEditor False False)"
    by (simp_all add: eval_editor)
  have f: "fetched (request_for v) = Inr (Some v)" for v
    by (simp add: request_for_def)
  from t f [of a_tuple]
    readonly_flag_of_editor [of "request_for a_tuple" CollectionsEditor True False]
  have 1: "is_tuple a_tuple \<or> is_set a_tuple \<or> parent_readonly (request_for a_tuple) \<or>
      \<not> is_known_type a_tuple"
    by auto
  from l f [of a_list]
    readonly_flag_of_editor [of "request_for a_list" CollectionsEditor False False]
  have 2: "\<not> (is_tuple a_list \<or> is_set a_list \<or> parent_readonly (request_for a_list) \<or>
      \<not> is_known_type a_list)"
    by auto
  have "is_tuple a_tuple" by (simp add: a_tuple_def plain_value_def)
  with t l 2 show ?thesis by blast
qed

text \<open>
  Claim C9 as stated fails: a set of a known type under a parent that is not read-only is
  no immutable container, and both delegates open it read-only.
\<close>

theorem readonly_set_counterexample:
  "fetched (request_for a_set) = Inr (Some a_set) \<and>
   createEditor (request_for a_set) = Inr (Dialog CollectionsEditor True False) \<and>
   toggle_createEditor (request_for a_set) = Inr (Dialog CollectionsEditor True False) \<and>
   \<not> read_only_as_specified (request_for a_set) a_set"
  by (simp add: eval_editor)

subsection \<open>Accepting and rejecting\<close>

lemma pop_editor_removes: "editors (pop_editor editor_id d) editor_id = None"
  by (simp add: pop_editor_def split: option.split)

lemma pop_editor_others: "e \<noteq> editor_id \<Longrightarrow> editors (pop_editor editor_id d) e = editors d e"
  by (simp add: pop_editor_def split: option.split)

lemma pop_editor_frame:
  "table_model (pop_editor editor_id d) = table_model d \<and>
   set_value_calls (pop_editor editor_id d) = set_value_calls d \<and>
   free_memory_requested (pop_editor editor_id d) = free_memory_requested d"
  by (simp add: pop_editor_def split: option.split)

lemma free_memory_frame:
  "editors (snd (free_memory env d)) = editors d \<and>
   table_model (snd (free_memory env d)) = table_model d \<and>
   set_value_calls (snd (free_memory env d)) = set_value_calls d"
  by (simp add: free_memory_def split: option.split)

lemma free_memory_emits:
  "emit_raises env = None \<Longrightarrow>
   free_memory env d = (None, d\<lparr>free_memory_requested := Suc (free_memory_requested d)\<rparr>)"
  by (simp add: free_memory_def)


lemma store_converted_editors: "editors (snd (store_converted env index data d)) = editors d"
  by (simp add: store_converted_def delegate_set_value_def Let_def split: sum.split option.split)

text \<open>A read-only session is closed without a call of \<^verbatim>\<open>set_value\<close>, in both delegates.\<close>

lemma editor_accepted_readonly:
  assumes "editors d editor_id = Some data" and "session_readonly data"
  shows "editor_accepted env editor_id d = free_memory env (pop_editor editor_id d)"
  using assms by (simp add: editor_accepted_def)

lemma toggle_editor_accepted_readonly:
  assumes "editors d editor_id = Some data" and "session_readonly data"
  shows "toggle_editor_accepted env editor_id d = free_memory env (pop_editor editor_id d)"
  using assms by (simp add: toggle_editor_accepted_def)

lemma editor_accepted_readonly_frame:
  assumes "editors d editor_id = Some data" and "session_readonly data"
  shows "set_value_calls (snd (editor_accepted env editor_id d)) = set_value_calls d \<and>
    table_model (snd (editor_accepted env editor_id d)) = table_model d \<and>
    editors (snd (editor_accepted env editor_id d)) editor_id = None \<and>
    (emit_raises env = None \<longrightarrow>
       fst (editor_accepted env editor_id d) = None \<and>
       free_memory_requested (snd (editor_accepted env editor_id d)) =
         Suc (free_memory_requested d))"
  using assms
  by (simp add: editor_accepted_readonly free_memory_frame pop_editor_frame pop_editor_removes
      free_memory_emits)

lemma toggle_editor_accepted_readonly_frame:
  assumes "editors d editor_id = Some data" and "session_readonly data"
  shows "set_value_calls (snd (toggle_editor_accepted env editor_id d)) = set_value_calls d \<and>
    table_model (snd (toggle_editor_accepted env editor_id d)) = table_model d \<and>
    editors (snd (toggle_editor_accepted env editor_id d)) editor_id = None \<and>
    (emit_raises env = None \<longrightarrow>
       fst (toggle_editor_accepted env editor_id d) = None \<and>
       free_memory_requested (snd (toggle_editor_accepted env editor_id d)) =
         Suc (free_memory_requested d))"
  using assms
  by (simp add: toggle_editor_accepted_readonly free_memory_frame pop_editor_frame
      pop_editor_removes free_memory_emits)

text \<open>
  \<^verbatim>\<open>CollectionsDelegate.editor_accepted\<close> removes the session whether the store succeeds
  or raises an \<^verbatim>\<open>Exception\<close>, and rejecting removes it in both delegates.
\<close>

lemma editor_accepted_removes_session:
  assumes "editors d editor_id = Some data"
    and "\<And>err. fst (store_converted env (get_index_from_key env (table_model d) (session_key data))
            data d) = Some err \<Longrightarrow> isinstance err [Exception]"
  shows "editors (snd (editor_accepted env editor_id d)) editor_id = None"
proof (cases "session_readonly data")
  case True
  with assms(1) show ?thesis by (simp add: editor_accepted_readonly_frame)
next
  case False
  obtain r d1 where
    st: "store_converted env (get_index_from_key env (table_model d) (session_key data)) data d =
      (r, d1)"
    by (cases "store_converted env (get_index_from_key env (table_model d) (session_key data))
      data d")
  show ?thesis
  proof (cases r)
    case None
    with assms(1) False st show ?thesis
      by (simp add: editor_accepted_def free_memory_frame pop_editor_removes)
  next
    case (Some err)
    with assms(2) st have "isinstance err [Exception]" by simp
    with assms(1) False st Some show ?thesis
      by (simp add: editor_accepted_def free_memory_frame pop_editor_removes)
  qed
qed

lemma editor_rejected_removes_session:
  "editors (snd (editor_rejected env editor_id d)) editor_id = None \<and>
   editors (snd (toggle_editor_rejected env editor_id t)) editor_id = None"
  by (simp add: editor_rejected_def toggle_editor_rejected_def free_memory_frame
      pop_editor_removes)

lemmas eval_accept = editor_accepted_def toggle_editor_accepted_def store_converted_def
  delegate_set_value_def pop_editor_def free_memory_def failing_model_def list_model_def
  open_session_def one_editor_def toggle_one_editor_def isinstance_def exc_defs

lemma editor_accepted_stores:
  "editor_accepted list_model 1 (one_editor False) =
     (None, \<lparr>editors = Map.empty, table_model = [7], set_value_calls = [(Some 0, 7)],
             free_memory_requested = 1, error_boxes = []\<rparr>)"
  by (simp add: eval_accept)

lemma editor_accepted_store_failure:
  "editor_accepted failing_model 1 (one_editor False) =
     (None, \<lparr>editors = Map.empty, table_model = [3], set_value_calls = [(Some 0, 7)],
             free_memory_requested = 1, error_boxes = [''no such attribute'']\<rparr>)"
  by (simp add: eval_accept)

text \<open>
  Claim C10 says that an accepted session is removed from the registry and a free-memory
  request emitted whether or not the store succeeds. In
  \<^verbatim>\<open>ToggleColumnDelegate.editor_accepted\<close> the store is outside any \<^verbatim>\<open>try\<close>: when
  \<^verbatim>\<open>set_value\<close> of the model raises, the exception leaves the method, the session stays
  in the registry and no request is emitted.
\<close>

theorem toggle_editor_accepted_store_failure:
  "\<not> session_readonly (open_session False) \<and>
   toggle_editor_accepted failing_model 1 (toggle_one_editor False) =
     (Some attribute_error, (toggle_one_editor False)\<lparr>set_value_calls := [(Some 0, 7)]\<rparr>) \<and>
   editors (snd (toggle_editor_accepted failing_model 1 (toggle_one_editor False))) 1 =
     Some (open_session False) \<and>
   free_memory_requested (snd (toggle_editor_accepted failing_model 1 (toggle_one_editor False))) = 0"
  by (simp add: eval_accept)

end
